theory Spec2Isabelle
  imports Complex_Main "HOL-Library.Word"
begin

unbundle bit_operations_syntax

section \<open>JavaScript strings\<close>

text \<open>
  Strings are lists of one-byte characters; the development covers ASCII text. On ASCII,
  the white space of \<^verbatim>\<open>String.prototype.trim\<close> and of the regular expression class
  \<^verbatim>\<open>\s\<close> is tab, line feed, vertical tab, form feed, carriage return and space, and
  \<^verbatim>\<open>toLowerCase\<close> / \<^verbatim>\<open>toUpperCase\<close> change the 26 letters only.
\<close>

definition isSpace :: "char \<Rightarrow> bool" where
  "isSpace c = (c \<in> set [CHR 0x09, CHR 0x0A, CHR 0x0B, CHR 0x0C, CHR 0x0D, CHR '' ''])"

definition trim :: "string \<Rightarrow> string" where
  "trim s = rev (dropWhile isSpace (rev (dropWhile isSpace s)))"

definition lowerChar :: "char \<Rightarrow> char" where
  "lowerChar c =
     (case map_of (zip ''ABCDEFGHIJKLMNOPQRSTUVWXYZ'' ''abcdefghijklmnopqrstuvwxyz'') c of
        Some l \<Rightarrow> l
      | None \<Rightarrow> c)"

definition upperChar :: "char \<Rightarrow> char" where
  "upperChar c =
     (case map_of (zip ''abcdefghijklmnopqrstuvwxyz'' ''ABCDEFGHIJKLMNOPQRSTUVWXYZ'') c of
        Some u \<Rightarrow> u
      | None \<Rightarrow> c)"

definition toLowerCase :: "string \<Rightarrow> string" where
  "toLowerCase s = map lowerChar s"

definition toUpperCase :: "string \<Rightarrow> string" where
  "toUpperCase s = map upperChar s"

text \<open>
  \<^verbatim>\<open>s.split(c)\<close> for a one-character separator: the empty string splits into one empty
  piece, and \<open>n\<close> separators give \<open>n + 1\<close> pieces.
\<close>

fun splitOn :: "char \<Rightarrow> string \<Rightarrow> string list" where
  "splitOn c [] = [[]]"
| "splitOn c (x # xs) =
     (if x = c then [] # splitOn c xs
      else (case splitOn c xs of
              [] \<Rightarrow> [[x]]
            | p # ps \<Rightarrow> (x # p) # ps))"

definition startsWith :: "string \<Rightarrow> string \<Rightarrow> bool" where
  "startsWith s p = (take (length p) s = p)"

definition isDigit :: "char \<Rightarrow> bool" where
  "isDigit c = (c \<in> set ''0123456789'')"

definition digitVal :: "char \<Rightarrow> nat" where
  "digitVal c =
     (case map_of (zip ''0123456789'' [0, 1, 2, 3, 4, 5, 6, 7, 8, 9]) c of
        Some v \<Rightarrow> v
      | None \<Rightarrow> 0)"

definition digitChar :: "nat \<Rightarrow> char" where
  "digitChar n = ''0123456789'' ! (n mod 10)"

definition decValue :: "string \<Rightarrow> nat" where
  "decValue s = foldl (\<lambda>a c. 10 * a + digitVal c) 0 s"

text \<open>The decimal numeral of a natural number, as \<^verbatim>\<open>String(n)\<close> prints it.\<close>

fun decimal :: "nat \<Rightarrow> string" where
  "decimal n = (if n < 10 then [digitChar n] else decimal (n div 10) @ [digitChar (n mod 10)])"

declare decimal.simps [simp del]

text \<open>
  \<^verbatim>\<open>Number(s)\<close> on a string, with \<open>None\<close> for \<^verbatim>\<open>NaN\<close>. The conversion trims white
  space, reads the empty string as \<open>0\<close> and a run of decimal digits as its value. These are
  the only shapes modelled: JavaScript also reads signed, fractional, exponent, hexadecimal,
  octal, binary and \<^verbatim>\<open>Infinity\<close> literals, which this function maps to \<open>None\<close>; nothing
  below is stated about such inputs.
\<close>

definition js_Number :: "string \<Rightarrow> int option" where
  "js_Number s =
     (let t = trim s in
      if t = [] then Some 0
      else if list_all isDigit t then Some (int (decValue t))
      else None)"

section \<open>32-bit integer operators\<close>

text \<open>
  The bitwise operators convert their operands to 32-bit integers. \<^verbatim>\<open>x << n\<close> and
  \<^verbatim>\<open>a & b\<close> give a signed 32-bit result, \<^verbatim>\<open>x >>> 0\<close> the unsigned reading; a shift
  count is taken modulo 32.
\<close>

definition js_shl :: "int \<Rightarrow> nat \<Rightarrow> int" where
  "js_shl x n = sint (push_bit (n mod 32) (word_of_int x :: 32 word))"

definition js_ushr0 :: "int \<Rightarrow> int" where
  "js_ushr0 x = uint (word_of_int x :: 32 word)"

definition js_and :: "int \<Rightarrow> int \<Rightarrow> int" where
  "js_and a b = sint ((word_of_int a :: 32 word) AND word_of_int b)"

section \<open>Network primitives\<close>

text \<open>
  \<^verbatim>\<open>normalizeClientIp\<close>: first comma-separated hop, trimmed, lower-cased, with the
  IPv4-mapped IPv6 prefix removed. A split has at least one piece, so its head exists.
\<close>

definition normalizeClientIp :: "string \<Rightarrow> string" where
  "normalizeClientIp v =
     (let first = toLowerCase (trim (hd (splitOn CHR '','' v))) in
      if first = [] then []
      else if startsWith first ''::ffff:'' then drop 7 first
      else first)"

text \<open>The loop of \<^verbatim>\<open>ipv4ToInt\<close> over the dot-separated parts.\<close>

fun ipv4Loop :: "int \<Rightarrow> string list \<Rightarrow> int option" where
  "ipv4Loop v [] = Some v"
| "ipv4Loop v (part # rest) =
     (case js_Number part of
        None \<Rightarrow> None
      | Some numeric \<Rightarrow>
          if numeric < 0 \<or> numeric > 255 then None
          else ipv4Loop (js_shl v 8 + numeric) rest)"

definition ipv4ToInt :: "string \<Rightarrow> int option" where
  "ipv4ToInt ipv4 =
     (let parts = splitOn CHR ''.'' ipv4 in
      if length parts \<noteq> 4 then None
      else map_option js_ushr0 (ipv4Loop 0 parts))"

text \<open>
  \<^verbatim>\<open>isIpv4CidrMatch\<close>. The destructuring takes the first two pieces of the split at
  \<^verbatim>\<open>/\<close>; a missing second piece is \<^verbatim>\<open>undefined\<close>, whose number is \<^verbatim>\<open>NaN\<close>.
\<close>

definition isIpv4CidrMatch :: "string \<Rightarrow> string \<Rightarrow> bool" where
  "isIpv4CidrMatch ip cidr =
     (let pieces = splitOn CHR ''/'' cidr;
          baseIp = hd pieces;
          prefixLength = (case tl pieces of [] \<Rightarrow> None | raw # _ \<Rightarrow> js_Number raw)
      in case prefixLength of
           None \<Rightarrow> False
         | Some prefixLen \<Rightarrow>
             if prefixLen < 0 \<or> prefixLen > 32 then False
             else (case (ipv4ToInt ip, ipv4ToInt baseIp) of
                     (Some ipInt, Some baseInt) \<Rightarrow>
                       (let mask = (if prefixLen = 0 then 0
                                    else js_ushr0 (js_shl 4294967295 (nat (32 - prefixLen))))
                        in js_and ipInt mask = js_and baseInt mask)
                   | _ \<Rightarrow> False))"

text \<open>
  \<^verbatim>\<open>isIpAllowedByAllowlist\<close>. \<open>isIP\<close> stands for Node's \<^verbatim>\<open>net.isIP\<close> (non-zero
  result), which the exact-match branch consults before comparing the strings.
\<close>

definition isIpAllowedByAllowlist :: "(string \<Rightarrow> bool) \<Rightarrow> string \<Rightarrow> string list \<Rightarrow> bool" where
  "isIpAllowedByAllowlist isIP clientIp allowlist =
     (let ip = normalizeClientIp clientIp in
      if ip = [] \<or> allowlist = [] then False
      else list_ex (\<lambda>entryRaw.
             let entry = normalizeClientIp entryRaw in
             if entry = [] then False
             else if CHR ''/'' \<in> set entry then isIpv4CidrMatch ip entry
             else if isIP ip \<and> isIP entry \<and> ip = entry then True
             else ip = entry) allowlist)"

text \<open>
  The specification's reading of a CIDR match: the address as one 32-bit word, and the
  mask with the top \<open>p\<close> bits set.
\<close>

definition dotted :: "nat \<Rightarrow> nat \<Rightarrow> nat \<Rightarrow> nat \<Rightarrow> string" where
  "dotted a b c d = decimal a @ ''.'' @ decimal b @ ''.'' @ decimal c @ ''.'' @ decimal d"

definition ipv4Word :: "nat \<Rightarrow> nat \<Rightarrow> nat \<Rightarrow> nat \<Rightarrow> 32 word" where
  "ipv4Word a b c d = word_of_nat (((a * 256 + b) * 256 + c) * 256 + d)"

definition topBits :: "nat \<Rightarrow> 32 word" where
  "topBits p = NOT (mask (32 - p))"


definition cidrEntry :: "nat \<Rightarrow> nat \<Rightarrow> nat \<Rightarrow> nat \<Rightarrow> nat \<Rightarrow> string" where
  "cidrEntry w x y z p = dotted w x y z @ ''/'' @ decimal p"

text \<open>The characters of a dotted quad with an optional prefix length.\<close>

definition ipChar :: "char \<Rightarrow> bool" where
  "ipChar c = (c \<in> set ''0123456789./'')"

section \<open>The platform\<close>

text \<open>
  What the handlers take from outside the repository: SHA-256 (the Java helper and Node's
  \<^verbatim>\<open>crypto\<close> fallback compute the same digest), \<^verbatim>\<open>net.isIP\<close>, the byte length of
  \<^verbatim>\<open>Buffer.from(s, "base64")\<close>, and the two environment settings. The haversine distance of
  \<^verbatim>\<open>getDistanceFromLatLngInMeters\<close> is floating-point arithmetic and is taken as given as
  well. Finite JavaScript numbers are modelled as reals; the code only compares them.
\<close>

record platform =
  sha256 :: "string \<Rightarrow> string"
  net_isIP :: "string \<Rightarrow> bool"
  base64ByteLength :: "string \<Rightarrow> nat"
  getDistanceFromLatLngInMeters :: "real \<Rightarrow> real \<Rightarrow> real \<Rightarrow> real \<Rightarrow> real"
  QR_SECRET_KEY :: string
  ATTENDANCE_REQUIRE_ENROLLMENT :: bool

section \<open>Attendance policy\<close>

text \<open>
  A raw policy field is a JavaScript value. Each type below has one constructor per case the
  normalisers distinguish:
  \<^item> \<open>FlagAbsent\<close> is \<^verbatim>\<open>undefined\<close>, \<^verbatim>\<open>null\<close> or the empty string, \<open>FlagBool\<close> a
    boolean, \<open>FlagOther s\<close> any other value, with \<open>s\<close> its \<^verbatim>\<open>String(value)\<close>;
  \<^item> \<open>NumAbsent\<close> is \<^verbatim>\<open>undefined\<close>, \<^verbatim>\<open>null\<close> or the empty string, \<open>NumFinite r\<close>
    a value whose \<^verbatim>\<open>Number(value)\<close> is the finite \<open>r\<close>, \<open>NumNotFinite\<close> any other;
  \<^item> \<open>ListUndefined\<close> is \<^verbatim>\<open>undefined\<close>, \<open>ListNotArray\<close> another non-array,
    \<open>ListArray xs\<close> an array whose entries \<open>e\<close> have \<^verbatim>\<open>String(e || "")\<close> in \<open>xs\<close>.
  An object that is absent or not an object is \<open>None\<close>.
\<close>

datatype rawflag = FlagAbsent | FlagBool bool | FlagOther string

datatype rawnum = NumAbsent | NumFinite real | NumNotFinite

datatype rawlist = ListUndefined | ListNotArray | ListArray "string list"

record rawGeofence =
  raw_lat :: rawnum
  raw_lng :: rawnum
  raw_radiusMeters :: rawnum

record rawPolicy =
  raw_singleDevicePerDay :: rawflag
  raw_requireSignature :: rawflag
  raw_requireEnrollment :: rawflag
  raw_requireIpAllowlist :: rawflag
  raw_ipAllowlist :: rawlist
  raw_requireGeofence :: rawflag
  raw_geofence :: "rawGeofence option"

text \<open>The empty object \<^verbatim>\<open>{}\<close>.\<close>

definition emptyGeofence :: rawGeofence where
  "emptyGeofence = \<lparr> raw_lat = NumAbsent, raw_lng = NumAbsent, raw_radiusMeters = NumAbsent \<rparr>"

definition emptyPolicy :: rawPolicy where
  "emptyPolicy =
     \<lparr> raw_singleDevicePerDay = FlagAbsent, raw_requireSignature = FlagAbsent,
       raw_requireEnrollment = FlagAbsent, raw_requireIpAllowlist = FlagAbsent,
       raw_ipAllowlist = ListUndefined, raw_requireGeofence = FlagAbsent,
       raw_geofence = None \<rparr>"

record geofence =
  lat :: "real option"
  lng :: "real option"
  radiusMeters :: real

record attendancePolicy =
  deliveryMode :: string
  singleDevicePerDay :: bool
  requireSignature :: bool
  requireEnrollment :: bool
  requireIpAllowlist :: bool
  ipAllowlist :: "string list"
  requireGeofence :: bool
  geofence :: geofence

definition normalizeBoolean :: "rawflag \<Rightarrow> bool \<Rightarrow> bool" where
  "normalizeBoolean v fallback =
     (case v of
        FlagAbsent \<Rightarrow> fallback
      | FlagBool b \<Rightarrow> b
      | FlagOther s \<Rightarrow>
          (let normalized = toLowerCase (trim s) in
           if normalized \<in> set [''true'', ''1'', ''yes'', ''on''] then True
           else if normalized \<in> set [''false'', ''0'', ''no'', ''off''] then False
           else fallback))"

definition toNullableNumber :: "rawnum \<Rightarrow> real option" where
  "toNullableNumber v =
     (case v of NumAbsent \<Rightarrow> None | NumFinite r \<Rightarrow> Some r | NumNotFinite \<Rightarrow> None)"

text \<open>\<^verbatim>\<open>[...new Set(xs)]\<close>: the first occurrence of each element, in order.\<close>

definition uniqueInOrder :: "'a list \<Rightarrow> 'a list" where
  "uniqueInOrder xs = foldl (\<lambda>acc x. if x \<in> set acc then acc else acc @ [x]) [] xs"

definition normalizeIpAllowlist :: "rawlist \<Rightarrow> string list" where
  "normalizeIpAllowlist v =
     (case v of
        ListArray xs \<Rightarrow> uniqueInOrder (filter (\<lambda>e. e \<noteq> []) (map trim xs))
      | _ \<Rightarrow> [])"

text \<open>
  \<^verbatim>\<open>normalizeAttendancePolicy\<close> of the server, used when a session is validated and when
  attendance is marked. It never raises; the radius is clamped.
\<close>

definition normalizeAttendancePolicy :: "platform \<Rightarrow> rawPolicy option \<Rightarrow> string \<Rightarrow> attendancePolicy" where
  "normalizeAttendancePolicy P rawPol mode =
     (let source = (case rawPol of Some p \<Rightarrow> p | None \<Rightarrow> emptyPolicy);
          geofenceSource = (case raw_geofence source of Some g \<Rightarrow> g | None \<Rightarrow> emptyGeofence)
      in \<lparr> deliveryMode = mode,
           singleDevicePerDay = normalizeBoolean (raw_singleDevicePerDay source) True,
           requireSignature = normalizeBoolean (raw_requireSignature source) True,
           requireEnrollment =
             normalizeBoolean (raw_requireEnrollment source) (ATTENDANCE_REQUIRE_ENROLLMENT P),
           requireIpAllowlist = normalizeBoolean (raw_requireIpAllowlist source) False,
           ipAllowlist = normalizeIpAllowlist (raw_ipAllowlist source),
           requireGeofence = normalizeBoolean (raw_requireGeofence source) False,
           geofence =
             \<lparr> lat = toNullableNumber (raw_lat geofenceSource),
               lng = toNullableNumber (raw_lng geofenceSource),
               radiusMeters =
                 max 10 (min 100000
                   (case toNullableNumber (raw_radiusMeters geofenceSource) of
                      None \<Rightarrow> 120
                    | Some r \<Rightarrow> r)) \<rparr> \<rparr>)"





section \<open>Session store and QR issuance\<close>

text \<open>
  The QR generator keeps two in-memory maps, \<^verbatim>\<open>activeSessions\<close> and \<^verbatim>\<open>ipCache\<close>, and
  writes the QR image to a file. Times are milliseconds since the epoch. A context field
  that is missing is the empty string; \<^verbatim>\<open>x || null\<close> turns it into \<open>None\<close>.
\<close>

record sessionContext =
  ctx_generatedBy :: string
  ctx_generatedByRole :: string
  ctx_generatedByName :: string
  ctx_institutionId :: string
  ctx_courseId :: string
  ctx_courseCode :: string
  ctx_courseName :: string
  ctx_section :: string

record session =
  ses_ip :: string
  ses_expiresAt :: int
  ses_createdAt :: int
  ses_generatedBy :: "string option"
  ses_generatedByRole :: "string option"
  ses_generatedByName :: "string option"
  ses_institutionId :: "string option"
  ses_courseId :: "string option"
  ses_courseCode :: "string option"
  ses_courseName :: "string option"
  ses_section :: "string option"

record qrResult =
  qr_qrImage :: string
  qr_sessionId :: string
  qr_expiresIn :: int
  qr_institutionId :: "string option"
  qr_courseId :: "string option"
  qr_courseCode :: "string option"
  qr_courseName :: "string option"
  qr_section :: "string option"

text \<open>The payload of the QR image: the redemption token.\<close>

record qrData =
  tok_sessionId :: string
  tok_timestamp :: int
  tok_hash :: string

record cacheEntry =
  cache_data :: qrResult
  cache_timestamp :: int

record qrState =
  activeSessions :: "string \<rightharpoonup> session"
  ipCache :: "string \<rightharpoonup> cacheEntry"
  qrFiles :: "string \<rightharpoonup> qrData"

definition QR_CODE_VALIDITY :: int where
  "QR_CODE_VALIDITY = 90000"

definition CACHE_TIME :: int where
  "CACHE_TIME = 90000"

definition orNull :: "string \<Rightarrow> string option" where
  "orNull s = (if s = [] then None else Some s)"

definition joinWith :: "string \<Rightarrow> string list \<Rightarrow> string" where
  "joinWith sep xs = (case xs of [] \<Rightarrow> [] | y # ys \<Rightarrow> y @ concat (map (\<lambda>z. sep @ z) ys))"

definition makeCacheKey :: "string \<Rightarrow> sessionContext \<Rightarrow> string" where
  "makeCacheKey ipAddress c =
     joinWith ''|'' [ipAddress, ctx_institutionId c, ctx_generatedBy c, ctx_courseId c, ctx_section c]"

text \<open>\<^verbatim>\<open>buffer.toString('hex')\<close>: two lower-case hexadecimal digits for each byte.\<close>

definition hexDigit :: "nat \<Rightarrow> char" where
  "hexDigit n = ''0123456789abcdef'' ! (n mod 16)"

definition byteHex :: "8 word \<Rightarrow> string" where
  "byteHex b = [hexDigit (unat b div 16), hexDigit (unat b mod 16)]"

definition toHex :: "8 word list \<Rightarrow> string" where
  "toHex bs = concat (map byteHex bs)"

definition hexVal :: "char \<Rightarrow> nat" where
  "hexVal c =
     (case map_of (zip ''0123456789abcdef'' [0, 1, 2, 3, 4, 5, 6, 7, 8, 9, 10, 11, 12, 13, 14, 15]) c of
        Some v \<Rightarrow> v
      | None \<Rightarrow> 0)"

text \<open>\<^verbatim>\<open>String(t)\<close> for an integral number \<open>t\<close>.\<close>

definition decimalInt :: "int \<Rightarrow> string" where
  "decimalInt t = (if t < 0 then CHR ''-'' # decimal (nat (- t)) else decimal (nat t))"

definition tokenHash :: "platform \<Rightarrow> string \<Rightarrow> int \<Rightarrow> string" where
  "tokenHash P sid t = sha256 P (sid @ decimalInt t @ QR_SECRET_KEY P)"


text \<open>
  \<^verbatim>\<open>generateQRCode\<close>. The three readings of \<^verbatim>\<open>Date.now()\<close> (cache check, issue time,
  cache insertion) are inputs, as are the 16 bytes of \<^verbatim>\<open>crypto.randomBytes(16)\<close> and
  whether \<^verbatim>\<open>QRCode.toFile\<close> succeeds; its failure is rethrown before anything is stored.
\<close>

record issueClock =
  at_check :: int
  at_issue :: int
  at_cached :: int

datatype qrError = QRWriteFailed

definition cachedResult :: "qrState \<Rightarrow> string \<Rightarrow> int \<Rightarrow> qrResult option" where
  "cachedResult st cacheKey now =
     (case ipCache st cacheKey of
        None \<Rightarrow> None
      | Some cached \<Rightarrow>
          if now - cache_timestamp cached < CACHE_TIME then Some (cache_data cached) else None)"

definition generateQRCode ::
    "platform \<Rightarrow> issueClock \<Rightarrow> 8 word list \<Rightarrow> bool \<Rightarrow> string \<Rightarrow> sessionContext \<Rightarrow> qrState
     \<Rightarrow> (qrError + qrResult) \<times> qrState" where
  "generateQRCode P clk randomBytes fileWritten ipAddress c st =
     (let cacheKey = makeCacheKey ipAddress c in
      case cachedResult st cacheKey (at_check clk) of
        Some cached \<Rightarrow> (Inr cached, st)
      | None \<Rightarrow>
          (let sessionId = toHex randomBytes;
               timestamp = at_issue clk;
               hash = tokenHash P sessionId timestamp;
               fileName = ''qr_'' @ decimalInt timestamp @ ''.png''
           in if \<not> fileWritten then (Inl QRWriteFailed, st)
              else
                (let sessionRecord =
                       \<lparr> ses_ip = ipAddress,
                         ses_expiresAt = timestamp + QR_CODE_VALIDITY,
                         ses_createdAt = timestamp,
                         ses_generatedBy = orNull (ctx_generatedBy c),
                         ses_generatedByRole = orNull (ctx_generatedByRole c),
                         ses_generatedByName = orNull (ctx_generatedByName c),
                         ses_institutionId = orNull (ctx_institutionId c),
                         ses_courseId = orNull (ctx_courseId c),
                         ses_courseCode = orNull (ctx_courseCode c),
                         ses_courseName = orNull (ctx_courseName c),
                         ses_section = orNull (ctx_section c) \<rparr>;
                     result =
                       \<lparr> qr_qrImage = ''/qrcodes/'' @ fileName,
                         qr_sessionId = sessionId,
                         qr_expiresIn = QR_CODE_VALIDITY,
                         qr_institutionId = ses_institutionId sessionRecord,
                         qr_courseId = ses_courseId sessionRecord,
                         qr_courseCode = ses_courseCode sessionRecord,
                         qr_courseName = ses_courseName sessionRecord,
                         qr_section = ses_section sessionRecord \<rparr>
                 in (Inr result,
                     st\<lparr> qrFiles := (qrFiles st)(fileName \<mapsto>
                                       \<lparr> tok_sessionId = sessionId, tok_timestamp = timestamp,
                                         tok_hash = hash \<rparr>),
                         activeSessions := (activeSessions st)(sessionId \<mapsto> sessionRecord),
                         ipCache := (ipCache st)(cacheKey \<mapsto>
                                      \<lparr> cache_data = result,
                                        cache_timestamp = at_cached clk \<rparr>) \<rparr>))))"

text \<open>The timer set at issuance removes the session when it fires.\<close>

definition sessionTimerFires :: "string \<Rightarrow> qrState \<Rightarrow> qrState" where
  "sessionTimerFires sessionId st = st\<lparr> activeSessions := (activeSessions st)(sessionId := None) \<rparr>"

text \<open>
  \<^verbatim>\<open>getSessionDetails\<close> at time \<open>now\<close>: the stored session with its id, or \<open>None\<close> for
  \<^verbatim>\<open>null\<close>; an expired entry is deleted.
\<close>

definition getSessionDetails ::
    "int \<Rightarrow> string \<Rightarrow> (string \<rightharpoonup> session) \<Rightarrow> (string \<times> session) option \<times> (string \<rightharpoonup> session)" where
  "getSessionDetails now sessionId sessions =
     (case sessions sessionId of
        None \<Rightarrow> (None, sessions)
      | Some s \<Rightarrow>
          if now > ses_expiresAt s then (None, sessions(sessionId := None))
          else (Some (sessionId, s), sessions))"

definition validateSession :: "int \<Rightarrow> string \<Rightarrow> (string \<rightharpoonup> session) \<Rightarrow> bool \<times> (string \<rightharpoonup> session)" where
  "validateSession now sessionId sessions =
     (case getSessionDetails now sessionId sessions of (s, sessions') \<Rightarrow> (s \<noteq> None, sessions'))"

section \<open>Token verification\<close>

text \<open>
  \<^verbatim>\<open>GET /verify-attendance\<close>. The query is \<open>None\<close> when decoding or parsing it throws;
  a parsed token with a missing member has the empty string or \<open>0\<close> there. The reply is
  a status with a text, or the redirect to the attendance form with the session id and, when
  the session is still stored, its institution.
\<close>

datatype verifyReply = VStatus nat string | VRedirect string "string option"

definition qrExpiryTime :: int where
  "qrExpiryTime = 15 * 60 * 1000"

definition verifyAttendance ::
    "platform \<Rightarrow> int \<Rightarrow> qrData option \<Rightarrow> (string \<rightharpoonup> session) \<Rightarrow> verifyReply \<times> (string \<rightharpoonup> session)" where
  "verifyAttendance P now query sessions =
     (case query of
        None \<Rightarrow> (VStatus 400 ''Invalid QR code data'', sessions)
      | Some d \<Rightarrow>
          if tok_sessionId d = [] \<or> tok_timestamp d = 0 \<or> tok_hash d = [] then
            (VStatus 400 ''Invalid QR code data: Missing fields'', sessions)
          else if tok_hash d \<noteq> tokenHash P (tok_sessionId d) (tok_timestamp d) then
            (VStatus 400 ''Invalid QR code: Hash mismatch'', sessions)
          else if now - tok_timestamp d > qrExpiryTime then
            (VStatus 400 ''QR code expired'', sessions)
          else
            (case getSessionDetails now (tok_sessionId d) sessions of
               (sessionDetails, sessions') \<Rightarrow>
                 (VRedirect (tok_sessionId d)
                    (case sessionDetails of
                       None \<Rightarrow> None
                     | Some (_, s) \<Rightarrow> ses_institutionId s),
                  sessions')))"


section \<open>Signature validation\<close>

text \<open>
  \<^verbatim>\<open>signatureDataUrl.split(",")[1]\<close>: the piece between the first comma and the next one
  (or the end), \<open>None\<close> when there is no comma.
\<close>

definition signaturePayload :: "string \<Rightarrow> string option" where
  "signaturePayload s = (case splitOn CHR '','' s of _ # p # _ \<Rightarrow> Some p | _ \<Rightarrow> None)"

definition isBase64Char :: "char \<Rightarrow> bool" where
  "isBase64Char c =
     (c \<in> set ''ABCDEFGHIJKLMNOPQRSTUVWXYZabcdefghijklmnopqrstuvwxyz0123456789+/='')"

text \<open>
  \<^verbatim>\<open>validateSignatureDataUrl\<close>: \<open>None\<close> for \<^verbatim>\<open>null\<close> (valid), otherwise the message.
  \<^verbatim>\<open>Buffer.from\<close> does not throw on a string, so the message of the \<^verbatim>\<open>catch\<close> block
  does not occur.
\<close>

definition validateSignatureDataUrl :: "platform \<Rightarrow> string \<Rightarrow> string option" where
  "validateSignatureDataUrl P signatureDataUrl =
     (if signatureDataUrl = [] then Some ''Signature is required''
      else if \<not> startsWith signatureDataUrl ''data:image/png;base64,'' then
        Some ''Invalid signature format''
      else if length signatureDataUrl > 700000 then Some ''Signature image is too large''
      else
        (let base64 = (case signaturePayload signatureDataUrl of None \<Rightarrow> [] | Some p \<Rightarrow> p) in
         if \<not> (base64 \<noteq> [] \<and> list_all isBase64Char base64) then
           Some ''Invalid signature encoding''
         else if base64ByteLength P base64 < 120 \<or> base64ByteLength P base64 > 500000 then
           Some ''Invalid signature data size''
         else None))"

section \<open>Names and e-mail addresses\<close>

text \<open>\<^verbatim>\<open>s.replace(/\s+/g, " ")\<close>: every run of white space becomes one space.\<close>

function collapseSpaces :: "string \<Rightarrow> string" where
  "collapseSpaces [] = []"
| "collapseSpaces (c # cs) =
     (if isSpace c then CHR '' '' # collapseSpaces (dropWhile isSpace cs)
      else c # collapseSpaces cs)"
  by pat_completeness auto
termination
  by (relation "measure length") (auto simp: le_imp_less_Suc length_dropWhile_le)

definition normalizeName :: "string \<Rightarrow> string" where
  "normalizeName v = toLowerCase (collapseSpaces (trim v))"

definition namesMatch :: "string \<Rightarrow> string \<Rightarrow> bool" where
  "namesMatch left right =
     (if left = [] \<or> right = [] then True else normalizeName left = normalizeName right)"

definition normalizeUpper :: "string \<Rightarrow> string" where
  "normalizeUpper v = toUpperCase (trim v)"

definition normalizeEmail :: "string \<Rightarrow> string" where
  "normalizeEmail v = toLowerCase (trim v)"

text \<open>
  \<^verbatim>\<open>/^[^\s@]+@[^\s@]+\.[^\s@]+$/\<close>: no white space, exactly one \<^verbatim>\<open>@\<close>, something before
  it, and after it a dot that is neither the first nor the last character.
\<close>

definition isValidEmail :: "string \<Rightarrow> bool" where
  "isValidEmail v =
     (case splitOn CHR ''@'' v of
        [local, domain] \<Rightarrow>
          \<not> list_ex isSpace v \<and> local \<noteq> [] \<and> CHR ''.'' \<in> set (butlast (tl domain))
      | _ \<Rightarrow> False)"

definition normalizeDeliveryMode :: "string \<Rightarrow> string" where
  "normalizeDeliveryMode v =
     (let normalized = toLowerCase (trim v) in
      if normalized = [] then ''in_person''
      else if normalized \<notin> set [''in_person'', ''online'', ''hybrid''] then ''in_person''
      else normalized)"

section \<open>The database\<close>

text \<open>
  The collections the attendance handler reads and writes, as lists in insertion order;
  \<^verbatim>\<open>findOne\<close> returns the first match. Identifiers are strings. Only the fields the
  handler touches are kept for courses, enrolments and users.
\<close>

record course =
  crs_id :: string
  crs_institutionId :: string
  crs_isActive :: bool
  crs_code :: string
  crs_name :: string
  crs_section :: string
  crs_deliveryMode :: string
  crs_attendancePolicy :: "rawPolicy option"

record enrollment =
  enr_institutionId :: string
  enr_courseId :: string
  enr_isActive :: bool
  enr_universityRollNo :: string
  enr_fullName :: string
  enr_section :: string
  enr_classRollNo :: string

record user =
  usr_id :: nat
  usr_institutionId :: string
  usr_name :: string
  usr_email :: "string option"
  usr_universityRollNo :: string
  usr_section :: string
  usr_classRollNo :: string

record attendance =
  att_institutionId :: string
  att_name :: string
  att_studentEmail :: string
  att_universityRollNo :: string
  att_section :: string
  att_classRollNo :: string
  att_date :: string
  att_time :: string
  att_sessionId :: string
  att_courseId :: "string option"
  att_courseCode :: "string option"
  att_courseName :: "string option"
  att_generatedBy :: "string option"
  att_generatedByRole :: "string option"
  att_status :: string
  att_studentId :: nat
  att_distanceFromClass :: "real option"
  att_location :: "(real \<times> real) option"
  att_deviceFingerprint :: string
  att_signatureDataUrl :: "string option"
  att_signatureHash :: "string option"
  att_ipAddress :: "string option"
  att_userAgent :: string
  att_courseDeliveryMode :: string
  att_attendancePolicySnapshot :: attendancePolicy

record database =
  courses :: "course list"
  enrollments :: "enrollment list"
  users :: "user list"
  attendances :: "attendance list"


section \<open>Marking attendance\<close>

text \<open>
  \<^verbatim>\<open>POST /mark-attendance\<close>. A body member that is missing is the empty string; the
  location is \<open>None\<close> when it is not an object, and a coordinate is \<open>None\<close> when its
  \<^verbatim>\<open>Number(...)\<close> is not finite. The request carries the forwarded-for header (empty
  when absent), the peer address and the user agent. The readings of the clock are inputs:
  the time of the session lookup, the ISO date of \<^verbatim>\<open>today\<close> and the time of day.
\<close>

record body =
  b_name :: string
  b_email :: string
  b_deviceFingerprint :: string
  b_sessionId :: string
  b_signatureDataUrl :: string
  b_location :: "(real option \<times> real option) option"

record request =
  req_body :: body
  req_forwardedFor :: string
  req_ip :: string
  req_userAgent :: string

record clock =
  clock_now :: int
  clock_today :: string
  clock_time :: string

record server =
  sessions :: "string \<rightharpoonup> session"
  db :: database

text \<open>
  A reply is a status with its message, the out-of-range rejection (status 400, with the
  radius and the computed distance of its message), the status 500 of the \<^verbatim>\<open>catch\<close>
  block, or success with the stored record.
\<close>

datatype reply =
    Reply nat string
  | OutOfRange real real
  | ServerError
  | Success attendance

definition isSuccess :: "reply \<Rightarrow> bool" where
  "isSuccess r = (case r of Success _ \<Rightarrow> True | _ \<Rightarrow> False)"

definition strOf :: "string option \<Rightarrow> string" where
  "strOf v = (case v of None \<Rightarrow> [] | Some s \<Rightarrow> s)"

definition getClientIpFromRequest :: "request \<Rightarrow> string" where
  "getClientIpFromRequest req =
     (if req_forwardedFor req \<noteq> [] then normalizeClientIp (req_forwardedFor req)
      else normalizeClientIp (req_ip req))"

text \<open>The middleware \<^verbatim>\<open>validateAttendance\<close>; \<open>None\<close> calls \<^verbatim>\<open>next()\<close>.\<close>

definition validateAttendance :: "body \<Rightarrow> reply option" where
  "validateAttendance b =
     (let missing = map fst (filter (\<lambda>(field, v). v = [])
                      [(''name'', b_name b), (''email'', b_email b),
                       (''deviceFingerprint'', b_deviceFingerprint b)])
      in if missing \<noteq> [] then
           Some (Reply 400 (''Missing required fields: '' @ joinWith '', '' missing))
         else None)"

definition hasValidLocation :: "(real option \<times> real option) option \<Rightarrow> bool" where
  "hasValidLocation loc = (case loc of Some (Some _, Some _) \<Rightarrow> True | _ \<Rightarrow> False)"

text \<open>The three checks on the submitted fields.\<close>

definition fieldChecks :: "body \<Rightarrow> reply option" where
  "fieldChecks b =
     (if b_sessionId b = [] then Some (Reply 400 ''Session ID is required'')
      else if trim (b_name b) = [] then Some (Reply 400 ''Full name is required'')
      else if \<not> isValidEmail (normalizeEmail (b_email b)) then
        Some (Reply 400 ''Valid email is required'')
      else None)"

text \<open>
  The session must be stored and linked to a course and an institution, and the course must
  exist and be active. The result is the session with its institution, course id and course.
\<close>

definition findCourse :: "database \<Rightarrow> string \<Rightarrow> string \<Rightarrow> course option" where
  "findCourse d courseId institutionId =
     find (\<lambda>c. crs_id c = courseId \<and> crs_institutionId c = institutionId \<and> crs_isActive c)
       (courses d)"

definition resolveCourse ::
    "database \<Rightarrow> (string \<times> session) option \<Rightarrow> reply + (session \<times> course)" where
  "resolveCourse d sessionDetails =
     (case sessionDetails of
        None \<Rightarrow> Inl (Reply 400 ''Invalid or expired session. Please scan a fresh QR.'')
      | Some (_, s) \<Rightarrow>
          if strOf (ses_courseId s) = [] then
            Inl (Reply 400 ''Session is not linked to a course'')
          else if strOf (ses_institutionId s) = [] then
            Inl (Reply 400 ''Session is not linked to an institution'')
          else (case findCourse d (strOf (ses_courseId s)) (strOf (ses_institutionId s)) of
                  None \<Rightarrow> Inl (Reply 404 ''Course not found or inactive'')
                | Some c \<Rightarrow> Inr (s, c)))"

definition coursePolicy :: "platform \<Rightarrow> course \<Rightarrow> attendancePolicy" where
  "coursePolicy P c =
     normalizeAttendancePolicy P (crs_attendancePolicy c) (normalizeDeliveryMode (crs_deliveryMode c))"

definition networkCheck :: "platform \<Rightarrow> attendancePolicy \<Rightarrow> string \<Rightarrow> reply option" where
  "networkCheck P pol clientIp =
     (if requireIpAllowlist pol then
        (if ipAllowlist pol = [] then
           Some (Reply 400 ''Course policy requires IP allowlist but no ranges are configured'')
         else if \<not> isIpAllowedByAllowlist (net_isIP P) clientIp (ipAllowlist pol) then
           Some (Reply 403 ''Attendance is only allowed from approved campus network ranges'')
         else None)
      else None)"

text \<open>The geofence check returns the computed distance, \<open>None\<close> for \<^verbatim>\<open>null\<close>.\<close>

definition geofenceCheck ::
    "platform \<Rightarrow> attendancePolicy \<Rightarrow> (real option \<times> real option) option \<Rightarrow> reply + real option" where
  "geofenceCheck P pol loc =
     (if requireGeofence pol then
        (case loc of
           Some (Some la, Some lo) \<Rightarrow>
             (let geofenceRadius = (if radiusMeters (geofence pol) = 0 then 120
                                    else radiusMeters (geofence pol))
              in case (lat (geofence pol), lng (geofence pol)) of
                   (Some geofenceLat, Some geofenceLng) \<Rightarrow>
                     (let distance = getDistanceFromLatLngInMeters P la lo geofenceLat geofenceLng
                      in if distance > geofenceRadius then Inl (OutOfRange geofenceRadius distance)
                         else Inr (Some distance))
                 | _ \<Rightarrow>
                     Inl (Reply 400
                       ''Course geofence is not configured. Contact your administrator.''))
         | _ \<Rightarrow>
             Inl (Reply 400
               ''This course requires geolocation. Enable location and try again.''))
      else Inr None)"

definition signatureCheck :: "platform \<Rightarrow> attendancePolicy \<Rightarrow> string \<Rightarrow> reply option" where
  "signatureCheck P pol normalizedSignatureDataUrl =
     (if requireSignature pol then
        (case validateSignatureDataUrl P normalizedSignatureDataUrl of
           Some signatureValidationError \<Rightarrow> Some (Reply 400 signatureValidationError)
         | None \<Rightarrow> None)
      else if normalizedSignatureDataUrl \<noteq> [] then
        (case validateSignatureDataUrl P normalizedSignatureDataUrl of
           Some optionalSignatureError \<Rightarrow> Some (Reply 400 optionalSignatureError)
         | None \<Rightarrow> None)
      else None)"


text \<open>
  The roster lookup: an active row of the course whose roll number is the submitted e-mail
  (as typed in lower case, or in upper case), or whose full name equals the submitted name
  up to letter case. The last disjunct stands for the anchored, case-insensitive regular
  expression built from the escaped name; \<^verbatim>\<open>escapeRegex\<close> leaves braces unescaped, so the
  two agree for names without braces.
\<close>

definition findEnrollment :: "database \<Rightarrow> string \<Rightarrow> string \<Rightarrow> string \<Rightarrow> string \<Rightarrow> enrollment option" where
  "findEnrollment d institutionId courseId submittedEmail submittedName =
     find (\<lambda>e. enr_institutionId e = institutionId \<and> enr_courseId e = courseId \<and> enr_isActive e \<and>
                (enr_universityRollNo e = submittedEmail \<or>
                 enr_universityRollNo e = toUpperCase submittedEmail \<or>
                 toLowerCase (enr_fullName e) = toLowerCase submittedName))
       (enrollments d)"

definition identityCheck :: "attendancePolicy \<Rightarrow> enrollment option \<Rightarrow> string \<Rightarrow> reply option" where
  "identityCheck pol enrolled submittedName =
     (case enrolled of
        None \<Rightarrow>
          if requireEnrollment pol then
            Some (Reply 400 ''You are not enrolled in this course roster'')
          else None
      | Some e \<Rightarrow>
          if \<not> namesMatch (enr_fullName e) submittedName then
            Some (Reply 400 ''Student name does not match course enrollment record'')
          else None)"

text \<open>The two duplicate lookups on the attendance collection.\<close>

definition findExisting :: "database \<Rightarrow> string \<Rightarrow> string \<Rightarrow> string \<Rightarrow> string \<Rightarrow> attendance option" where
  "findExisting d institutionId today courseId canonicalStudentId =
     find (\<lambda>a. att_institutionId a = institutionId \<and> att_date a = today \<and>
                att_courseId a = Some courseId \<and>
                (att_studentEmail a = canonicalStudentId \<or>
                 att_universityRollNo a = canonicalStudentId))
       (attendances d)"

definition findExistingDevice :: "database \<Rightarrow> string \<Rightarrow> string \<Rightarrow> string \<Rightarrow> string \<Rightarrow> attendance option" where
  "findExistingDevice d institutionId deviceFingerprint today courseId =
     find (\<lambda>a. att_institutionId a = institutionId \<and>
                att_deviceFingerprint a = deviceFingerprint \<and> att_date a = today \<and>
                att_courseId a = Some courseId)
       (attendances d)"

definition duplicateCheck ::
    "database \<Rightarrow> attendancePolicy \<Rightarrow> string \<Rightarrow> string \<Rightarrow> string \<Rightarrow> string \<Rightarrow> string \<Rightarrow> reply option" where
  "duplicateCheck d pol institutionId today courseId canonicalStudentId deviceFingerprint =
     (let existing = findExisting d institutionId today courseId canonicalStudentId;
          existingDevice = (if singleDevicePerDay pol
                            then findExistingDevice d institutionId deviceFingerprint today courseId
                            else None)
      in if existing \<noteq> None then
           Some (Reply 400 ''You've already marked attendance for this course today'')
         else if singleDevicePerDay pol \<and> existingDevice \<noteq> None then
           Some (Reply 400 ''This device has already been used for this course today'')
         else None)"

text \<open>
  \<^verbatim>\<open>User.findOneAndUpdate\<close> with \<^verbatim>\<open>upsert\<close>: the user of the institution with this
  roll number gets the name and e-mail, or is inserted. The users collection has a unique
  sparse index on institution and e-mail; a write that would give two users of one
  institution the same e-mail fails with a duplicate-key error.
\<close>

datatype dbError = DuplicateKey

definition emailTaken :: "user list \<Rightarrow> string \<Rightarrow> string \<Rightarrow> nat option \<Rightarrow> bool" where
  "emailTaken us institutionId email self =
     list_ex (\<lambda>u. usr_institutionId u = institutionId \<and> usr_email u = Some email \<and>
                   Some (usr_id u) \<noteq> self) us"

definition freshUserId :: "user list \<Rightarrow> nat" where
  "freshUserId us = Suc (foldr max (map usr_id us) 0)"

fun updateFirst :: "('a \<Rightarrow> bool) \<Rightarrow> ('a \<Rightarrow> 'a) \<Rightarrow> 'a list \<Rightarrow> 'a list" where
  "updateFirst p f [] = []"
| "updateFirst p f (x # xs) = (if p x then f x # xs else x # updateFirst p f xs)"

definition upsertUser ::
    "database \<Rightarrow> string \<Rightarrow> string \<Rightarrow> string \<Rightarrow> string \<Rightarrow> string \<Rightarrow> dbError + (user \<times> database)" where
  "upsertUser d institutionId canonicalStudentId canonicalName canonicalSection canonicalClassRollNo =
     (let matches = (\<lambda>u. usr_institutionId u = institutionId \<and>
                          usr_universityRollNo u = canonicalStudentId);
          setFields = (\<lambda>u. u\<lparr> usr_name := canonicalName, usr_email := Some canonicalStudentId \<rparr>)
      in case find matches (users d) of
           Some u \<Rightarrow>
             if emailTaken (users d) institutionId canonicalStudentId (Some (usr_id u)) then
               Inl DuplicateKey
             else Inr (setFields u, d\<lparr> users := updateFirst matches setFields (users d) \<rparr>)
         | None \<Rightarrow>
             if emailTaken (users d) institutionId canonicalStudentId None then Inl DuplicateKey
             else
               (let u = \<lparr> usr_id = freshUserId (users d),
                          usr_institutionId = institutionId,
                          usr_name = canonicalName,
                          usr_email = Some canonicalStudentId,
                          usr_universityRollNo = canonicalStudentId,
                          usr_section = canonicalSection,
                          usr_classRollNo = canonicalClassRollNo \<rparr>
                in Inr (u, d\<lparr> users := users d @ [u] \<rparr>)))"

text \<open>
  \<^verbatim>\<open>Attendance.create\<close>. None of the indexes of the attendance schema is declared unique,
  so the insertion appends the document whatever the collection holds. The handler gives
  every required path a non-empty string, so validation passes; a store that is unreachable
  at this point is not modelled.
\<close>

definition createAttendance :: "attendance \<Rightarrow> database \<Rightarrow> database" where
  "createAttendance a d = d\<lparr> attendances := attendances d @ [a] \<rparr>"


definition orElse :: "string \<Rightarrow> string \<Rightarrow> string" where
  "orElse a b = (if a \<noteq> [] then a else b)"

text \<open>
  The digest stored with the record: SHA-256 of the payload when a signature was sent.
  Hashing \<^verbatim>\<open>undefined\<close> (no comma in the data URL) throws; that is \<open>Inl\<close>.
\<close>

definition signatureDigest :: "platform \<Rightarrow> string \<Rightarrow> unit + string option" where
  "signatureDigest P normalizedSignatureDataUrl =
     (if normalizedSignatureDataUrl = [] then Inr None
      else (case signaturePayload normalizedSignatureDataUrl of
              None \<Rightarrow> Inl ()
            | Some p \<Rightarrow> Inr (Some (sha256 P p))))"

text \<open>
  The writes: the user upsert, then the attendance record. The \<^verbatim>\<open>studentEmail\<close> path
  of the attendance schema trims and lower-cases what it stores.
\<close>

definition commitAttendance ::
    "platform \<Rightarrow> clock \<Rightarrow> request \<Rightarrow> session \<Rightarrow> course \<Rightarrow> real option \<Rightarrow> string option
     \<Rightarrow> enrollment option \<Rightarrow> database \<Rightarrow> reply \<times> database" where
  "commitAttendance P clk req s c distance signatureHash enrolled d =
     (let b = req_body req;
          institutionId = strOf (ses_institutionId s);
          normalizedSignatureDataUrl = trim (b_signatureDataUrl b);
          submittedName = trim (b_name b);
          canonicalStudentId = normalizeEmail (b_email b);
          canonicalName = (case enrolled of
                             None \<Rightarrow> submittedName
                           | Some e \<Rightarrow> orElse (enr_fullName e) submittedName);
          courseSection = orElse (normalizeUpper (orElse (crs_section c) (strOf (ses_section s)))) ''N/A'';
          canonicalSection = (case enrolled of
                                None \<Rightarrow> courseSection
                              | Some e \<Rightarrow> orElse (enr_section e) courseSection);
          canonicalClassRollNo = (case enrolled of
                                    None \<Rightarrow> ''N/A''
                                  | Some e \<Rightarrow> orElse (enr_classRollNo e) ''N/A'')
      in case upsertUser d institutionId canonicalStudentId canonicalName canonicalSection
                canonicalClassRollNo of
           Inl _ \<Rightarrow> (ServerError, d)
         | Inr (student, d') \<Rightarrow>
             (let a = \<lparr> att_institutionId = institutionId,
                        att_name = canonicalName,
                        att_studentEmail = toLowerCase (trim canonicalStudentId),
                        att_universityRollNo = canonicalStudentId,
                        att_section = canonicalSection,
                        att_classRollNo = canonicalClassRollNo,
                        att_date = clock_today clk,
                        att_time = clock_time clk,
                        att_sessionId = b_sessionId b,
                        att_courseId = ses_courseId s,
                        att_courseCode = (if crs_code c \<noteq> [] then Some (crs_code c)
                                          else ses_courseCode s),
                        att_courseName = (if crs_name c \<noteq> [] then Some (crs_name c)
                                          else ses_courseName s),
                        att_generatedBy = ses_generatedBy s,
                        att_generatedByRole = ses_generatedByRole s,
                        att_status = ''present'',
                        att_studentId = usr_id student,
                        att_distanceFromClass = distance,
                        att_location = (case b_location b of
                                          Some (Some la, Some lo) \<Rightarrow> Some (la, lo)
                                        | _ \<Rightarrow> None),
                        att_deviceFingerprint = b_deviceFingerprint b,
                        att_signatureDataUrl = orNull normalizedSignatureDataUrl,
                        att_signatureHash = signatureHash,
                        att_ipAddress = orNull (getClientIpFromRequest req),
                        att_userAgent = req_userAgent req,
                        att_courseDeliveryMode = normalizeDeliveryMode (crs_deliveryMode c),
                        att_attendancePolicySnapshot = coursePolicy P c \<rparr>
              in (Success a, createAttendance a d')))"

text \<open>
  The checks between the policy and the writes, in the order of the handler, for a session
  \<open>s\<close> and its course \<open>c\<close>: network, geofence, signature, signature digest, roster and
  name, duplicates. \<open>Inl\<close> is the reply of the first check that fails, \<open>Inr\<close> what the
  writes need.
\<close>

definition policyChecks ::
    "platform \<Rightarrow> clock \<Rightarrow> request \<Rightarrow> session \<Rightarrow> course \<Rightarrow> database
     \<Rightarrow> reply + (real option \<times> string option \<times> enrollment option)" where
  "policyChecks P clk req s c d =
     (let b = req_body req;
          pol = coursePolicy P c;
          institutionId = strOf (ses_institutionId s);
          courseId = strOf (ses_courseId s);
          normalizedSignatureDataUrl = trim (b_signatureDataUrl b);
          submittedEmail = normalizeEmail (b_email b);
          submittedName = trim (b_name b)
      in case networkCheck P pol (getClientIpFromRequest req) of
           Some r \<Rightarrow> Inl r
         | None \<Rightarrow>
        (case geofenceCheck P pol (b_location b) of
           Inl r \<Rightarrow> Inl r
         | Inr distance \<Rightarrow>
        (case signatureCheck P pol normalizedSignatureDataUrl of
           Some r \<Rightarrow> Inl r
         | None \<Rightarrow>
        (case signatureDigest P normalizedSignatureDataUrl of
           Inl _ \<Rightarrow> Inl ServerError
         | Inr signatureHash \<Rightarrow>
        (let enrolled = findEnrollment d institutionId courseId submittedEmail submittedName
         in case identityCheck pol enrolled submittedName of
              Some r \<Rightarrow> Inl r
            | None \<Rightarrow>
           (case duplicateCheck d pol institutionId (clock_today clk) courseId submittedEmail
                   (b_deviceFingerprint b) of
              Some r \<Rightarrow> Inl r
            | None \<Rightarrow> Inr (distance, signatureHash, enrolled)))))))"

text \<open>
  The handler behind its middleware. The session lookup may delete an expired session from
  the in-memory map; the database changes only in \<open>commitAttendance\<close>.
\<close>

definition markAttendance :: "platform \<Rightarrow> clock \<Rightarrow> request \<Rightarrow> server \<Rightarrow> reply \<times> server" where
  "markAttendance P clk req st =
     (case validateAttendance (req_body req) of
        Some r \<Rightarrow> (r, st)
      | None \<Rightarrow>
     (case fieldChecks (req_body req) of
        Some r \<Rightarrow> (r, st)
      | None \<Rightarrow>
     (case getSessionDetails (clock_now clk) (b_sessionId (req_body req)) (sessions st) of
        (sessionDetails, sessions') \<Rightarrow>
     (let st' = st\<lparr> sessions := sessions' \<rparr>
      in case resolveCourse (db st) sessionDetails of
           Inl r \<Rightarrow> (r, st')
         | Inr (s, c) \<Rightarrow>
        (case policyChecks P clk req s c (db st) of
           Inl r \<Rightarrow> (r, st')
         | Inr (distance, signatureHash, enrolled) \<Rightarrow>
        (case commitAttendance P clk req s c distance signatureHash enrolled (db st) of
           (r, d') \<Rightarrow> (r, st'\<lparr> db := d' \<rparr>)))))))"

section \<open>Concrete instances\<close>

text \<open>
  A platform, a store and a request on which the handlers are run below. The digest of this
  platform prefixes its input, the decoded length is that of unpadded base64, and every point
  is at distance \<open>0\<close> of every other.
\<close>

definition examplePlatform :: platform where
  "examplePlatform =
     \<lparr> sha256 = (\<lambda>s. ''#'' @ s),
       net_isIP = (\<lambda>_. False),
       base64ByteLength = (\<lambda>s. (length s * 3) div 4),
       getDistanceFromLatLngInMeters = (\<lambda>_ _ _ _. 0),
       QR_SECRET_KEY = ''default-secret-key'',
       ATTENDANCE_REQUIRE_ENROLLMENT = False \<rparr>"

definition exampleContext :: sessionContext where
  "exampleContext =
     \<lparr> ctx_generatedBy = ''t1'', ctx_generatedByRole = ''teacher'', ctx_generatedByName = ''T'',
       ctx_institutionId = ''i1'', ctx_courseId = ''c1'', ctx_courseCode = ''MAT'',
       ctx_courseName = ''Maths'', ctx_section = ''A'' \<rparr>"

definition exampleBytes :: "8 word list" where
  "exampleBytes = [0, 1, 2, 3, 4, 5, 6, 7, 8, 9, 10, 11, 12, 13, 14, 255]"

definition otherBytes :: "8 word list" where
  "otherBytes = [16, 1, 2, 3, 4, 5, 6, 7, 8, 9, 10, 11, 12, 13, 14, 255]"

definition emptyQrState :: qrState where
  "emptyQrState = \<lparr> activeSessions = Map.empty, ipCache = Map.empty, qrFiles = Map.empty \<rparr>"

text \<open>A first issuance at time 1000, cached at time 1005.\<close>

definition issuedOnce :: "(qrError + qrResult) \<times> qrState" where
  "issuedOnce =
     generateQRCode examplePlatform \<lparr> at_check = 1000, at_issue = 1000, at_cached = 1005 \<rparr>
       exampleBytes True ''10.0.0.1'' exampleContext emptyQrState"

text \<open>A second request two seconds later, from the same address and for the same course.\<close>

definition issuedTwice :: "(qrError + qrResult) \<times> qrState" where
  "issuedTwice =
     generateQRCode examplePlatform \<lparr> at_check = 3000, at_issue = 3000, at_cached = 3005 \<rparr>
       otherBytes True ''10.0.0.1'' exampleContext (snd issuedOnce)"

definition exampleSessionId :: string where
  "exampleSessionId = ''000102030405060708090a0b0c0d0eff''"

definition exampleSession :: session where
  "exampleSession =
     \<lparr> ses_ip = ''10.0.0.1'', ses_expiresAt = 91000, ses_createdAt = 1000,
       ses_generatedBy = Some ''t1'', ses_generatedByRole = Some ''teacher'',
       ses_generatedByName = Some ''T'', ses_institutionId = Some ''i1'',
       ses_courseId = Some ''c1'', ses_courseCode = Some ''MAT'',
       ses_courseName = Some ''Maths'', ses_section = Some ''A'' \<rparr>"

text \<open>The session id of an issuance, when it returned one.\<close>

definition issuedId :: "(qrError + qrResult) \<Rightarrow> string option" where
  "issuedId r = (case r of Inl _ \<Rightarrow> None | Inr q \<Rightarrow> Some (qr_sessionId q))"

text \<open>
  A course that asks for one device per day and nothing else, a store that holds the
  example session and that course, and a submission for it.
\<close>

definition lenientPolicy :: rawPolicy where
  "lenientPolicy =
     \<lparr> raw_singleDevicePerDay = FlagBool True, raw_requireSignature = FlagBool False,
       raw_requireEnrollment = FlagBool False, raw_requireIpAllowlist = FlagBool False,
       raw_ipAllowlist = ListArray [], raw_requireGeofence = FlagBool False,
       raw_geofence = None \<rparr>"

definition exampleCourse :: course where
  "exampleCourse =
     \<lparr> crs_id = ''c1'', crs_institutionId = ''i1'', crs_isActive = True, crs_code = ''MAT'',
       crs_name = ''Maths'', crs_section = ''A'', crs_deliveryMode = ''in_person'',
       crs_attendancePolicy = Some lenientPolicy \<rparr>"

definition exampleDb :: database where
  "exampleDb = \<lparr> courses = [exampleCourse], enrollments = [], users = [], attendances = [] \<rparr>"

definition exampleServer :: server where
  "exampleServer = \<lparr> sessions = [exampleSessionId \<mapsto> exampleSession], db = exampleDb \<rparr>"

definition exampleBody :: body where
  "exampleBody =
     \<lparr> b_name = ''Ana Lopez'', b_email = ''ana@uni.edu'', b_deviceFingerprint = ''dev1'',
       b_sessionId = exampleSessionId, b_signatureDataUrl = [], b_location = None \<rparr>"

definition exampleRequest :: request where
  "exampleRequest =
     \<lparr> req_body = exampleBody, req_forwardedFor = [], req_ip = ''10.0.0.7'',
       req_userAgent = ''UA'' \<rparr>"

definition exampleClock :: clock where
  "exampleClock = \<lparr> clock_now = 2000, clock_today = ''2026-01-15'', clock_time = ''10:00:00'' \<rparr>"

text \<open>The record the example submission stores.\<close>

definition exampleRecord :: attendance where
  "exampleRecord =
     \<lparr> att_institutionId = ''i1'', att_name = ''Ana Lopez'', att_studentEmail = ''ana@uni.edu'',
       att_universityRollNo = ''ana@uni.edu'', att_section = ''A'', att_classRollNo = ''N/A'',
       att_date = ''2026-01-15'', att_time = ''10:00:00'', att_sessionId = exampleSessionId,
       att_courseId = Some ''c1'', att_courseCode = Some ''MAT'', att_courseName = Some ''Maths'',
       att_generatedBy = Some ''t1'', att_generatedByRole = Some ''teacher'',
       att_status = ''present'', att_studentId = 1, att_distanceFromClass = None,
       att_location = None, att_deviceFingerprint = ''dev1'', att_signatureDataUrl = None,
       att_signatureHash = None, att_ipAddress = Some ''10.0.0.7'', att_userAgent = ''UA'',
       att_courseDeliveryMode = ''in_person'',
       att_attendancePolicySnapshot = coursePolicy examplePlatform exampleCourse \<rparr>"

section \<open>Notions of the specification\<close>





text \<open>
  The inconsistent combinations of a raw course policy: an allowlist that is required and
  empty, a geofence that is required without both coordinates, and a geofence that is required
  with a radius outside 10 to 100000.
\<close>

definition rawGeofenceOf :: "rawPolicy \<Rightarrow> rawGeofence" where
  "rawGeofenceOf raw = (case raw_geofence raw of Some g \<Rightarrow> g | None \<Rightarrow> emptyGeofence)"





text \<open>
  A submission reaches the signature check when the middleware, the field checks, the session
  lookup, the course lookup, the network check and the geofence check let it through, with
  session \<open>s\<close> and course \<open>c\<close>. It reaches the roster lookup when the signature check
  and the digest let it through as well.
\<close>

definition reachesSignatureCheck ::
    "platform \<Rightarrow> clock \<Rightarrow> request \<Rightarrow> server \<Rightarrow> session \<Rightarrow> course \<Rightarrow> bool" where
  "reachesSignatureCheck P clk req st s c =
     (validateAttendance (req_body req) = None \<and>
      fieldChecks (req_body req) = None \<and>
      fst (getSessionDetails (clock_now clk) (b_sessionId (req_body req)) (sessions st))
        = Some (b_sessionId (req_body req), s) \<and>
      resolveCourse (db st) (Some (b_sessionId (req_body req), s)) = Inr (s, c) \<and>
      networkCheck P (coursePolicy P c) (getClientIpFromRequest req) = None \<and>
      \<not> isl (geofenceCheck P (coursePolicy P c) (b_location (req_body req))))"


text \<open>The state after a handler has run: the sessions it left, over the same database.\<close>

definition afterLookup :: "clock \<Rightarrow> request \<Rightarrow> server \<Rightarrow> server" where
  "afterLookup clk req st =
     st\<lparr> sessions :=
           snd (getSessionDetails (clock_now clk) (b_sessionId (req_body req)) (sessions st)) \<rparr>"

text \<open>The user the example submission creates, and the database after its writes.\<close>

definition exampleUser :: user where
  "exampleUser =
     \<lparr> usr_id = 1, usr_institutionId = ''i1'', usr_name = ''Ana Lopez'',
       usr_email = Some ''ana@uni.edu'', usr_universityRollNo = ''ana@uni.edu'',
       usr_section = ''A'', usr_classRollNo = ''N/A'' \<rparr>"

definition committedOnce :: database where
  "committedOnce = exampleDb\<lparr> users := [exampleUser], attendances := [exampleRecord] \<rparr>"


text \<open>A token for the example session whose tag was not computed with the secret.\<close>

definition forgedToken :: qrData where
  "forgedToken =
     \<lparr> tok_sessionId = exampleSessionId, tok_timestamp = 1000, tok_hash = ''forged'' \<rparr>"

definition genuineToken :: qrData where
  "genuineToken =
     \<lparr> tok_sessionId = exampleSessionId, tok_timestamp = 1000,
       tok_hash = tokenHash examplePlatform exampleSessionId 1000 \<rparr>"

text \<open>The example submission sent after the session has expired.\<close>

definition lateClock :: clock where
  "lateClock = \<lparr> clock_now = 91001, clock_today = ''2026-01-15'', clock_time = ''10:01:31'' \<rparr>"








text \<open>
  A PNG data URL of 160 base64 characters (120 bytes) followed by a second comma and text
  outside the base64 alphabet, and the example submission carrying it.
\<close>

definition junkSignature :: string where
  "junkSignature = ''data:image/png;base64,'' @ replicate 160 CHR ''A'' @ '',<script>''"

definition signedRequest :: request where
  "signedRequest =
     exampleRequest\<lparr> req_body := exampleBody\<lparr> b_signatureDataUrl := junkSignature \<rparr> \<rparr>"

text \<open>The record stored for the submission with that signature.\<close>

definition signedRecord :: attendance where
  "signedRecord =
     exampleRecord\<lparr> att_signatureDataUrl := Some junkSignature,
                    att_signatureHash := Some (''#'' @ replicate 160 CHR ''A'') \<rparr>"
section \<open>Properties of the network primitives\<close>

lemma lt10_cases: "(n::nat) < 10 \<Longrightarrow> n \<in> {0,1,2,3,4,5,6,7,8,9}"
  by auto

lemma digitChar_isDigit: "isDigit (digitChar n)"
proof -
  have "n mod 10 \<in> {0,1,2,3,4,5,6,7,8,9}" by (rule lt10_cases) simp
  then show ?thesis by (auto simp: isDigit_def digitChar_def)
qed

lemma digitVal_digitChar: "digitVal (digitChar n) = n mod 10"
proof -
  have "n mod 10 \<in> {0,1,2,3,4,5,6,7,8,9}" by (rule lt10_cases) simp
  then show ?thesis by (auto simp: digitVal_def digitChar_def)
qed

lemma decimal_digits: "list_all isDigit (decimal n)"
proof (induction n rule: decimal.induct)
  case (1 n)
  then show ?case
    by (subst decimal.simps) (simp add: digitChar_isDigit)
qed

lemma decimal_nonempty: "decimal n \<noteq> []"
  by (subst decimal.simps) simp

lemma decValue_snoc: "decValue (s @ [c]) = 10 * decValue s + digitVal c"
  by (simp add: decValue_def)

lemma decValue_decimal: "decValue (decimal n) = n"
proof (induction n rule: decimal.induct)
  case (1 n)
  show ?case
  proof (cases "n < 10")
    case True
    then show ?thesis
      by (subst decimal.simps) (simp add: decValue_def digitVal_digitChar)
  next
    case False
    with 1 have "decValue (decimal (n div 10)) = n div 10" by simp
    with False show ?thesis
      by (subst decimal.simps) (simp add: decValue_snoc digitVal_digitChar)
  qed
qed

lemma isDigit_not_space: "isDigit c \<Longrightarrow> \<not> isSpace c"
  by (auto simp: isDigit_def isSpace_def)

lemma trim_id: "s \<noteq> [] \<Longrightarrow> \<not> isSpace (hd s) \<Longrightarrow> \<not> isSpace (last s) \<Longrightarrow> trim s = s"
proof -
  assume a: "s \<noteq> []" "\<not> isSpace (hd s)" "\<not> isSpace (last s)"
  then have 1: "dropWhile isSpace s = s" by (cases s) auto
  from a have "rev s \<noteq> []" "\<not> isSpace (hd (rev s))" by (auto simp: hd_rev)
  then have 2: "dropWhile isSpace (rev s) = rev s" by (cases "rev s") auto
  show ?thesis by (simp add: trim_def 1 2)
qed

lemma js_Number_decimal: "js_Number (decimal n) = Some (int n)"
proof -
  have d: "list_all isDigit (decimal n)" by (rule decimal_digits)
  have ne: "decimal n \<noteq> []" by (rule decimal_nonempty)
  from d ne have "isDigit (hd (decimal n))" "isDigit (last (decimal n))"
    by (auto simp: list_all_iff)
  then have "trim (decimal n) = decimal n"
    using ne by (intro trim_id) (auto dest: isDigit_not_space)
  then show ?thesis using d ne by (simp add: js_Number_def decValue_decimal)
qed

lemma splitOn_nonempty: "splitOn c s \<noteq> []"
  by (induction s) (auto split: list.splits)

lemma splitOn_no_sep: "c \<notin> set p \<Longrightarrow> splitOn c p = [p]"
  by (induction p) auto

lemma splitOn_sep: "c \<notin> set p \<Longrightarrow> splitOn c (p @ c # rest) = p # splitOn c rest"
  by (induction p) auto

lemma isDigit_ipChar: "isDigit c \<Longrightarrow> ipChar c"
  by (auto simp: isDigit_def ipChar_def)

lemma ipChar_lower: "ipChar c \<Longrightarrow> lowerChar c = c"
  unfolding ipChar_def
  by (simp, elim disjE; simp add: lowerChar_def)

lemma ipChar_not_space: "ipChar c \<Longrightarrow> \<not> isSpace c"
  by (auto simp: ipChar_def isSpace_def)

lemma ipChar_not_comma: "ipChar c \<Longrightarrow> c \<noteq> CHR '',''"
  by (auto simp: ipChar_def)

lemma ipChar_not_colon: "ipChar c \<Longrightarrow> c \<noteq> CHR '':''"
  by (auto simp: ipChar_def)

lemma not_startsWith: "s \<noteq> [] \<Longrightarrow> hd s \<noteq> hd p \<Longrightarrow> p \<noteq> [] \<Longrightarrow> \<not> startsWith s p"
  by (cases s; cases p) (simp_all add: startsWith_def)

lemma normalizeClientIp_id:
  assumes "s \<noteq> []" and "list_all ipChar s"
  shows "normalizeClientIp s = s"
proof -
  from assms(2) have nc: "CHR '','' \<notin> set s" 
    using ipChar_not_comma by (auto simp: list_all_iff)
  then have sp: "splitOn CHR '','' s = [s]" by (rule splitOn_no_sep)
  from assms have "ipChar (hd s)" "ipChar (last s)" by (simp_all add: list_all_iff)
  then have tr: "trim s = s" using assms(1) ipChar_not_space by (intro trim_id) blast+
  from assms(2) have lo: "toLowerCase s = s"
    unfolding toLowerCase_def by (intro map_idI) (simp add: list_all_iff ipChar_lower)
  from assms have "hd s \<noteq> CHR '':''" using ipChar_not_colon by (simp add: list_all_iff)
  then have "\<not> startsWith s ''::ffff:''" using assms(1) by (intro not_startsWith) simp_all
  then show ?thesis using assms(1) by (simp add: normalizeClientIp_def sp tr lo)
qed

lemma isDigit_not_dot: "isDigit c \<Longrightarrow> c \<noteq> CHR ''.''"
  by (auto simp: isDigit_def)

lemma isDigit_not_slash: "isDigit c \<Longrightarrow> c \<noteq> CHR ''/''"
  by (auto simp: isDigit_def)

lemma decimal_ipChar: "list_all ipChar (decimal n)"
  using decimal_digits [of n] isDigit_ipChar unfolding list_all_iff by blast

lemma decimal_no_dot: "CHR ''.'' \<notin> set (decimal n)"
  using decimal_digits [of n] isDigit_not_dot unfolding list_all_iff by blast

lemma decimal_no_slash: "CHR ''/'' \<notin> set (decimal n)"
  using decimal_digits [of n] isDigit_not_slash unfolding list_all_iff by blast

lemma dotted_ipChar: "list_all ipChar (dotted a b c d)"
  by (simp add: dotted_def decimal_ipChar ipChar_def)

lemma dotted_nonempty: "dotted a b c d \<noteq> []"
  by (simp add: dotted_def decimal_nonempty)

lemma dotted_no_slash: "CHR ''/'' \<notin> set (dotted a b c d)"
  by (simp add: dotted_def decimal_no_slash)

lemma splitOn_dotted: "splitOn CHR ''.'' (dotted a b c d) = [decimal a, decimal b, decimal c, decimal d]"
  by (simp add: dotted_def splitOn_sep splitOn_no_sep decimal_no_dot)

lemma word_shl8: "(word_of_int (js_shl v 8) :: 32 word) = word_of_int v * 256"
  by (simp add: js_shl_def push_bit_eq_mult)

lemma ipv4Loop_dotted:
  assumes "a \<le> 255" "b \<le> 255" "c \<le> 255" "d \<le> 255"
  shows "map_option js_ushr0 (ipv4Loop 0 [decimal a, decimal b, decimal c, decimal d])
         = Some (uint (ipv4Word a b c d))"
  using assms
  by (simp add: js_Number_decimal js_ushr0_def word_shl8 ipv4Word_def algebra_simps)

lemma ipv4ToInt_dotted:
  assumes "a \<le> 255" "b \<le> 255" "c \<le> 255" "d \<le> 255"
  shows "ipv4ToInt (dotted a b c d) = Some (uint (ipv4Word a b c d))"
  using ipv4Loop_dotted [OF assms] by (simp add: ipv4ToInt_def splitOn_dotted)

lemma js_mask: 
  assumes "p \<le> 32"
  shows "(word_of_int (if int p = 0 then 0 else js_ushr0 (js_shl 4294967295 (nat (32 - int p)))) :: 32 word) = topBits p"
proof (cases "p = 0")
  case True
  have "(mask 32 :: 32 word) = - 1" using mask_full [where 'a = 32] by simp
  with True show ?thesis by (simp add: topBits_def)
next
  case False
  with assms have m: "nat (32 - int p) mod 32 = 32 - p" by auto
  have "(push_bit (32 - p) (- 1) :: 32 word) = NOT (mask (32 - p))"
    by (simp add: push_bit_minus_one_eq_not_mask)
  moreover have "(4294967295 :: 32 word) = - 1" by simp
  ultimately have "(push_bit (32 - p) 4294967295 :: 32 word) = NOT (mask (32 - p))"
    by (simp only:)
  with False m show ?thesis
    by (simp add: js_ushr0_def js_shl_def topBits_def)
qed

lemma js_and_eq_iff: "(js_and a m = js_and b m) = ((word_of_int a :: 32 word) AND word_of_int m = word_of_int b AND word_of_int m)"
  by (simp add: js_and_def word_eq_iff_signed [symmetric])

lemma splitOn_cidrEntry: "splitOn CHR ''/'' (cidrEntry w x y z p) = [dotted w x y z, decimal p]"
  by (simp add: cidrEntry_def splitOn_sep splitOn_no_sep dotted_no_slash decimal_no_slash)

lemma cidrEntry_ipChar: "list_all ipChar (cidrEntry w x y z p)"
  by (simp add: cidrEntry_def dotted_ipChar decimal_ipChar ipChar_def)

lemma cidrEntry_nonempty: "cidrEntry w x y z p \<noteq> []"
  by (simp add: cidrEntry_def)

lemma cidrEntry_slash: "CHR ''/'' \<in> set (cidrEntry w x y z p)"
  by (simp add: cidrEntry_def)

lemma isIpv4CidrMatch_dotted:
  assumes "a \<le> 255" "b \<le> 255" "c \<le> 255" "d \<le> 255"
      and "w \<le> 255" "x \<le> 255" "y \<le> 255" "z \<le> 255" and "p \<le> 32"
  shows "isIpv4CidrMatch (dotted a b c d) (cidrEntry w x y z p)
         = (ipv4Word a b c d AND topBits p = ipv4Word w x y z AND topBits p)"
proof -
  have ip: "ipv4ToInt (dotted a b c d) = Some (uint (ipv4Word a b c d))"
    using assms(1-4) by (rule ipv4ToInt_dotted)
  have base: "ipv4ToInt (dotted w x y z) = Some (uint (ipv4Word w x y z))"
    using assms(5-8) by (rule ipv4ToInt_dotted)
  have m: "(word_of_int (if int p = 0 then 0 else js_ushr0 (js_shl 4294967295 (nat (32 - int p)))) :: 32 word) = topBits p"
    using assms(9) by (rule js_mask)
  have "isIpv4CidrMatch (dotted a b c d) (cidrEntry w x y z p)
      = (js_and (uint (ipv4Word a b c d)) (if int p = 0 then 0 else js_ushr0 (js_shl 4294967295 (nat (32 - int p))))
       = js_and (uint (ipv4Word w x y z)) (if int p = 0 then 0 else js_ushr0 (js_shl 4294967295 (nat (32 - int p)))))"
    using assms(9)
    by (simp add: isIpv4CidrMatch_def splitOn_cidrEntry js_Number_decimal ip base Let_def)
  also have "\<dots> = (ipv4Word a b c d AND topBits p = ipv4Word w x y z AND topBits p)"
    unfolding js_and_eq_iff m by simp
  finally show ?thesis .
qed

lemma exact_match_example:
  "isIpAllowedByAllowlist isIP ''192.168.1.10'' [''192.168.1.10'']"
  by (simp add: isIpAllowedByAllowlist_def normalizeClientIp_def toLowerCase_def lowerChar_def
      trim_def isSpace_def startsWith_def)

text \<open>
  Claim C6. For every candidate address \<open>a.b.c.d\<close> and every allowlist entry
  \<open>w.x.y.z/p\<close>, written in decimal with octets from 0 to 255 and a prefix length from 0 to
  32, the candidate matches the entry if and only if the two addresses are equal under the
  mask that has the top \<open>p\<close> bits set. An entry without a prefix matches by equality of
  the strings, as \<^verbatim>\<open>192.168.1.10\<close> does against itself.
\<close>

theorem cidr_match_iff_masked_equal:
  assumes "a \<le> 255" "b \<le> 255" "c \<le> 255" "d \<le> 255"
      and "w \<le> 255" "x \<le> 255" "y \<le> 255" "z \<le> 255" and "p \<le> 32"
  shows "(isIpAllowedByAllowlist isIP (dotted a b c d) [cidrEntry w x y z p]
          = (ipv4Word a b c d AND topBits p = ipv4Word w x y z AND topBits p))
         \<and> isIpAllowedByAllowlist isIP ''192.168.1.10'' [''192.168.1.10'']"
proof -
  have ip: "normalizeClientIp (dotted a b c d) = dotted a b c d"
    by (rule normalizeClientIp_id) (simp_all add: dotted_nonempty dotted_ipChar)
  have entry: "normalizeClientIp (cidrEntry w x y z p) = cidrEntry w x y z p"
    by (rule normalizeClientIp_id) (simp_all add: cidrEntry_ipChar cidrEntry_nonempty)
  have "isIpAllowedByAllowlist isIP (dotted a b c d) [cidrEntry w x y z p]
        = (ipv4Word a b c d AND topBits p = ipv4Word w x y z AND topBits p)"
    by (simp add: isIpAllowedByAllowlist_def ip entry dotted_nonempty cidrEntry_nonempty
        cidrEntry_slash isIpv4CidrMatch_dotted [OF assms])
  then show ?thesis using exact_match_example by simp
qed

text \<open>
  The theorem at the two CIDR examples of the specification: \<^verbatim>\<open>10.0.0.5\<close> is inside
  \<^verbatim>\<open>10.0.0.0/24\<close> and \<^verbatim>\<open>10.0.1.5\<close> is not.
\<close>

theorem cidr_match_examples:
  "isIpAllowedByAllowlist (\<lambda>_. False) ''10.0.0.5'' [''10.0.0.0/24''] \<and>
   \<not> isIpAllowedByAllowlist (\<lambda>_. False) ''10.0.1.5'' [''10.0.0.0/24'']"
proof -
  have d1: "dotted 10 0 0 5 = ''10.0.0.5''" by (simp add: dotted_def decimal.simps digitChar_def)
  have d2: "dotted 10 0 1 5 = ''10.0.1.5''" by (simp add: dotted_def decimal.simps digitChar_def)
  have e: "cidrEntry 10 0 0 0 24 = ''10.0.0.0/24''"
    by (simp add: cidrEntry_def dotted_def decimal.simps digitChar_def)
  have w1: "(ipv4Word 10 0 0 5 AND topBits 24 = ipv4Word 10 0 0 0 AND topBits 24)"
    by (simp add: ipv4Word_def topBits_def mask_eq_exp_minus_1)
  have w2: "\<not> (ipv4Word 10 0 1 5 AND topBits 24 = ipv4Word 10 0 0 0 AND topBits 24)"
    by (simp add: ipv4Word_def topBits_def mask_eq_exp_minus_1)
  have t1: "isIpAllowedByAllowlist (\<lambda>_. False) ''10.0.0.5'' [''10.0.0.0/24'']"
    using cidr_match_iff_masked_equal [of 10 0 0 5 10 0 0 0 24 "\<lambda>_. False"] w1
    unfolding d1 e by simp
  have t2: "\<not> isIpAllowedByAllowlist (\<lambda>_. False) ''10.0.1.5'' [''10.0.0.0/24'']"
    using cidr_match_iff_masked_equal [of 10 0 1 5 10 0 0 0 24 "\<lambda>_. False"] w2
    unfolding d2 e by simp
  from t1 t2 show ?thesis by simp
qed

text \<open>
  Claim C7 says that a malformed allowlist entry or candidate never matches. The code at
  that claim's inputs: the entry \<^verbatim>\<open>10.0.0.0/\<close> has an empty prefix length, which
  \<^verbatim>\<open>Number\<close> reads as \<open>0\<close>, so the mask is \<open>0\<close> and the unrelated candidate
  \<^verbatim>\<open>8.8.8.8\<close> is allowed; the entry \<^verbatim>\<open>10..0.0/8\<close> has an empty octet, read as
  \<open>0\<close>, and allows \<^verbatim>\<open>10.9.9.9\<close>; and an entry without a slash is compared as a
  string whatever \<^verbatim>\<open>net.isIP\<close> answers, so the candidate \<^verbatim>\<open>not-an-address\<close> matches
  the entry \<^verbatim>\<open>not-an-address\<close>.
\<close>

theorem malformed_entries_match:
  "isIpAllowedByAllowlist (\<lambda>_. False) ''8.8.8.8'' [''10.0.0.0/''] \<and>
   isIpAllowedByAllowlist (\<lambda>_. False) ''10.9.9.9'' [''10..0.0/8''] \<and>
   isIpAllowedByAllowlist (\<lambda>_. False) ''not-an-address'' [''not-an-address'']"
  by (simp add: isIpAllowedByAllowlist_def normalizeClientIp_def toLowerCase_def lowerChar_def
      trim_def isSpace_def startsWith_def isIpv4CidrMatch_def ipv4ToInt_def js_Number_def
      isDigit_def decValue_def digitVal_def js_shl_def js_ushr0_def js_and_def)

section \<open>Properties of the session store and of issuance\<close>

lemma toHex_example: "toHex exampleBytes = exampleSessionId"
  by (simp add: toHex_def exampleBytes_def byteHex_def hexDigit_def exampleSessionId_def)

lemma makeCacheKey_example: "makeCacheKey ''10.0.0.1'' exampleContext = ''10.0.0.1|i1|t1|c1|A''"
  by (simp add: makeCacheKey_def joinWith_def exampleContext_def)

lemma issuedOnce_sessions:
  "activeSessions (snd issuedOnce) = [exampleSessionId \<mapsto> exampleSession]"
  by (simp add: issuedOnce_def generateQRCode_def cachedResult_def emptyQrState_def toHex_example
      Let_def exampleSession_def exampleContext_def orNull_def QR_CODE_VALIDITY_def)

lemma issuedOnce_result: "map_sum id qr_sessionId (fst issuedOnce) = Inr exampleSessionId"
  by (simp add: issuedOnce_def generateQRCode_def cachedResult_def emptyQrState_def toHex_example
      Let_def)

lemma issuedTwice_result: "map_sum id qr_sessionId (fst issuedTwice) = Inr exampleSessionId"
  by (simp add: issuedTwice_def issuedOnce_def generateQRCode_def cachedResult_def emptyQrState_def toHex_example
      Let_def CACHE_TIME_def)

lemma lt16_cases: "(n::nat) < 16 \<Longrightarrow> n \<in> {0,1,2,3,4,5,6,7,8,9,10,11,12,13,14,15}"
  by (simp, arith)

lemma hexVal_hexDigit: "hexVal (hexDigit n) = n mod 16"
proof -
  have "n mod 16 \<in> {0,1,2,3,4,5,6,7,8,9,10,11,12,13,14,15}" by (rule lt16_cases) simp
  then show ?thesis by (auto simp: hexVal_def hexDigit_def)
qed

lemma byteHex_inj:
  assumes "byteHex b = byteHex c"
  shows "b = c"
proof -
  have lb: "unat b < 256" using unsigned_less [of b] by simp
  have lc: "unat c < 256" using unsigned_less [of c] by simp
  from assms have "hexVal (hexDigit (unat b div 16)) = hexVal (hexDigit (unat c div 16))"
    and "hexVal (hexDigit (unat b mod 16)) = hexVal (hexDigit (unat c mod 16))"
    by (simp_all add: byteHex_def)
  then have "(unat b div 16) mod 16 = (unat c div 16) mod 16" and m: "unat b mod 16 = unat c mod 16"
    by (simp_all add: hexVal_hexDigit)
  moreover from lb lc have "unat b div 16 < 16" "unat c div 16 < 16" by simp_all
  ultimately have d: "unat b div 16 = unat c div 16" by simp
  have "unat b = 16 * (unat b div 16) + unat b mod 16" by simp
  also have "\<dots> = 16 * (unat c div 16) + unat c mod 16" using d m by simp
  also have "\<dots> = unat c" by simp
  finally show ?thesis by (rule unsigned_word_eqI)
qed

lemma toHex_Cons: "toHex (b # bs) = hexDigit (unat b div 16) # hexDigit (unat b mod 16) # toHex bs"
  by (simp add: toHex_def byteHex_def)

lemma toHex_inj: "toHex xs = toHex ys \<Longrightarrow> xs = ys"
proof (induction xs arbitrary: ys)
  case Nil
  then show ?case by (cases ys) (simp_all add: toHex_def byteHex_def)
next
  case (Cons x xs)
  show ?case
  proof (cases ys)
    case Nil
    with Cons.prems show ?thesis by (simp add: toHex_def byteHex_def)
  next
    case (Cons y ys')
    with Cons.prems have h: "byteHex x = byteHex y" and t: "toHex xs = toHex ys'"
      by (simp_all add: toHex_Cons byteHex_def)
    from h have "x = y" by (rule byteHex_inj)
    moreover from t have "xs = ys'" by (rule Cons.IH)
    ultimately show ?thesis using Cons by simp
  qed
qed

lemma length_toHex: "length (toHex bs) = 2 * length bs"
  by (induction bs) (simp_all add: toHex_def byteHex_def)

lemma generateQRCode_cached:
  "cachedResult st (makeCacheKey ip c) (at_check clk) = Some cached \<Longrightarrow>
   generateQRCode P clk rnd ok ip c st = (Inr cached, st)"
  by (simp add: generateQRCode_def)

lemma generateQRCode_fresh:
  assumes "cachedResult st (makeCacheKey ip c) (at_check clk) = None"
  shows "issuedId (fst (generateQRCode P clk rnd True ip c st)) = Some (toHex rnd)"
    and "map_option ses_expiresAt (activeSessions (snd (generateQRCode P clk rnd True ip c st)) (toHex rnd))
         = Some (at_issue clk + 90000)"
    and "map_option ses_createdAt (activeSessions (snd (generateQRCode P clk rnd True ip c st)) (toHex rnd))
         = Some (at_issue clk)"
    and "map_sum id qr_expiresIn (fst (generateQRCode P clk rnd True ip c st)) = Inr 90000"
  using assms by (simp_all add: generateQRCode_def Let_def issuedId_def QR_CODE_VALIDITY_def)

lemma generateQRCode_failed:
  assumes "cachedResult st (makeCacheKey ip c) (at_check clk) = None"
  shows "generateQRCode P clk rnd False ip c st = (Inl QRWriteFailed, st)"
  using assms by (simp add: generateQRCode_def Let_def)

text \<open>
  Claim C5, as the generator behaves. When the cache holds a result for the key of the caller
  (address, institution, issuer, course, section) that is younger than 90000 ms, the call
  returns that result and changes nothing. Otherwise, when the image is written, the call
  returns as session id the hexadecimal digits of the 16 random bytes (32 characters) and
  stores the session with \<open>expiresAt\<close> equal to the issue time plus 90000 ms; the
  encoding is injective, so two such calls return the same id only for the same random bytes.
\<close>

theorem issuance_cached_or_fresh:
  "(cachedResult st (makeCacheKey ip c) (at_check clk) = Some cached \<longrightarrow>
      generateQRCode P clk rnd ok ip c st = (Inr cached, st)) \<and>
   (cachedResult st (makeCacheKey ip c) (at_check clk) = None \<longrightarrow>
      issuedId (fst (generateQRCode P clk rnd True ip c st)) = Some (toHex rnd) \<and>
      map_option ses_expiresAt
        (activeSessions (snd (generateQRCode P clk rnd True ip c st)) (toHex rnd))
        = Some (at_issue clk + 90000) \<and>
      (length rnd = 16 \<longrightarrow> length (toHex rnd) = 32) \<and>
      (\<forall>rnd'. toHex rnd' = toHex rnd \<longrightarrow> rnd' = rnd))"
  using generateQRCode_cached generateQRCode_fresh(1,2) toHex_inj
  by (simp add: length_toHex)

text \<open>
  The theorem at the two example issuances: the first is fresh, the second is served from the
  cache.
\<close>

theorem issuance_cached_or_fresh_witness:
  "issuedId (fst issuedOnce) = Some exampleSessionId \<and>
   map_option ses_expiresAt (activeSessions (snd issuedOnce) exampleSessionId) = Some 91000 \<and>
   length exampleSessionId = 32 \<and>
   issuedTwice = (fst issuedOnce, snd issuedOnce)"
proof -
  have miss: "cachedResult emptyQrState (makeCacheKey ''10.0.0.1'' exampleContext) 1000 = None"
    by (simp add: cachedResult_def emptyQrState_def)
  have len: "length exampleBytes = 16" by (simp add: exampleBytes_def)
  have key: "ipCache (snd issuedOnce) (makeCacheKey ''10.0.0.1'' exampleContext)
             = Some \<lparr> cache_data = projr (fst issuedOnce), cache_timestamp = 1005 \<rparr>"
    by (simp add: issuedOnce_def generateQRCode_def miss Let_def)
  have hit: "cachedResult (snd issuedOnce) (makeCacheKey ''10.0.0.1'' exampleContext) 3000
             = Some (projr (fst issuedOnce))"
    by (simp add: cachedResult_def key CACHE_TIME_def)
  have r: "fst issuedOnce = Inr (projr (fst issuedOnce))"
    by (simp add: issuedOnce_def generateQRCode_def miss Let_def)
  have one: "issuedId (fst issuedOnce) = Some (toHex exampleBytes) \<and>
      map_option ses_expiresAt (activeSessions (snd issuedOnce) (toHex exampleBytes)) = Some 91000 \<and>
      length (toHex exampleBytes) = 32"
    using issuance_cached_or_fresh [of emptyQrState "''10.0.0.1''" exampleContext
            "\<lparr> at_check = 1000, at_issue = 1000, at_cached = 1005 \<rparr>" _ examplePlatform exampleBytes]
          miss len
    by (simp add: issuedOnce_def)
  have two: "issuedTwice = (Inr (projr (fst issuedOnce)), snd issuedOnce)"
    using issuance_cached_or_fresh [of "snd issuedOnce" "''10.0.0.1''" exampleContext
            "\<lparr> at_check = 3000, at_issue = 3000, at_cached = 3005 \<rparr>" "projr (fst issuedOnce)"
            examplePlatform otherBytes True]
          hit
    by (simp add: issuedTwice_def)
  from one two r show ?thesis by (simp add: toHex_example)
qed

lemma toHex_other: "toHex otherBytes = ''100102030405060708090a0b0c0d0eff''"
  by (simp add: toHex_def otherBytes_def byteHex_def hexDigit_def)

text \<open>
  Claim C5 as stated says that two issuances never return the same session id. The second
  example issuance, two seconds after the first and with other random bytes, returns the id
  of the first.
\<close>

theorem repeated_issuance_same_session:
  "issuedId (fst issuedOnce) = Some exampleSessionId \<and>
   issuedId (fst issuedTwice) = Some exampleSessionId \<and>
   toHex otherBytes \<noteq> exampleSessionId"
  by (simp add: issuedId_def issuedOnce_def issuedTwice_def generateQRCode_def cachedResult_def
      emptyQrState_def toHex_example Let_def CACHE_TIME_def toHex_other)
     (simp add: exampleSessionId_def)

text \<open>
  Claim C2, with the boundary as the code has it. A stored session is returned by the lookup
  at every time up to and including \<open>expiresAt\<close>, with the store unchanged; at every
  later time the lookup returns nothing and deletes the entry; for an id that is not stored it
  returns nothing and leaves the store as it is. The lookup is a total function: not finding
  a session is a result, never an exception.
\<close>

theorem lookup_valid_through_expiry:
  "(store sid = None \<longrightarrow> getSessionDetails now sid store = (None, store)) \<and>
   (\<forall>s. store sid = Some s \<longrightarrow>
      (now \<le> ses_expiresAt s \<longrightarrow>
         getSessionDetails now sid store = (Some (sid, s), store)) \<and>
      (now > ses_expiresAt s \<longrightarrow>
         getSessionDetails now sid store = (None, store(sid := None))))"
  by (simp add: getSessionDetails_def)

text \<open>
  The theorem at the example session, one millisecond before and after its expiry, and at an
  unknown id.
\<close>

theorem lookup_valid_through_expiry_witness:
  "getSessionDetails 90999 exampleSessionId [exampleSessionId \<mapsto> exampleSession]
     = (Some (exampleSessionId, exampleSession), [exampleSessionId \<mapsto> exampleSession]) \<and>
   getSessionDetails 91001 exampleSessionId [exampleSessionId \<mapsto> exampleSession]
     = (None, Map.empty) \<and>
   getSessionDetails 2000 ''unknown'' [exampleSessionId \<mapsto> exampleSession]
     = (None, [exampleSessionId \<mapsto> exampleSession])"
proof -
  have e: "ses_expiresAt exampleSession = 91000" by (simp add: exampleSession_def)
  have u: "[exampleSessionId \<mapsto> exampleSession] ''unknown'' = None"
    by (simp add: exampleSessionId_def)
  show ?thesis
    using lookup_valid_through_expiry [of "[exampleSessionId \<mapsto> exampleSession]" exampleSessionId 90999]
          lookup_valid_through_expiry [of "[exampleSessionId \<mapsto> exampleSession]" exampleSessionId 91001]
          lookup_valid_through_expiry [of "[exampleSessionId \<mapsto> exampleSession]" "''unknown''" 2000]
          e u
    by simp
qed

text \<open>
  Claim C2 as stated makes the interval half-open. The session issued at time 1000 expires at
  91000, and the lookup at exactly 91000 still returns it.
\<close>

theorem lookup_at_expiry_returns_session:
  "activeSessions (snd issuedOnce) = [exampleSessionId \<mapsto> exampleSession] \<and>
   ses_expiresAt exampleSession = 91000 \<and>
   getSessionDetails 91000 exampleSessionId (activeSessions (snd issuedOnce))
     = (Some (exampleSessionId, exampleSession), activeSessions (snd issuedOnce))"
proof -
  have e: "ses_expiresAt exampleSession = 91000" by (simp add: exampleSession_def)
  show ?thesis
    by (simp add: issuedOnce_sessions e getSessionDetails_def)
qed

section \<open>Properties of the attendance handler\<close>



lemma markAttendance_db_cases:
  "db (snd (markAttendance P clk req st)) = db st \<or>
   (\<exists>s c dis h enr.
       fst (getSessionDetails (clock_now clk) (b_sessionId (req_body req)) (sessions st))
         = Some (b_sessionId (req_body req), s) \<and>
       resolveCourse (db st) (Some (b_sessionId (req_body req), s)) = Inr (s, c) \<and>
       policyChecks P clk req s c (db st) = Inr (dis, h, enr) \<and>
       commitAttendance P clk req s c dis h enr (db st)
         = (fst (markAttendance P clk req st), db (snd (markAttendance P clk req st))))"
  by (auto simp: markAttendance_def Let_def getSessionDetails_def resolveCourse_def
      split: option.splits sum.splits prod.splits if_splits)

lemmas str_ev = isSpace_def trim_def lowerChar_def upperChar_def toLowerCase_def toUpperCase_def
  startsWith_def joinWith_def orNull_def orElse_def strOf_def

lemma example_validate: "validateAttendance exampleBody = None"
  by (simp add: validateAttendance_def exampleBody_def)

lemma example_fields: "fieldChecks exampleBody = None"
  by (simp add: fieldChecks_def exampleBody_def exampleSessionId_def isValidEmail_def
      normalizeEmail_def str_ev)

lemma example_lookup:
  "getSessionDetails 2000 exampleSessionId [exampleSessionId \<mapsto> exampleSession]
   = (Some (exampleSessionId, exampleSession), [exampleSessionId \<mapsto> exampleSession])"
  by (simp add: getSessionDetails_def exampleSession_def)

lemma example_course:
  "resolveCourse exampleDb (Some (exampleSessionId, exampleSession)) = Inr (exampleSession, exampleCourse)"
  by (simp add: resolveCourse_def exampleSession_def strOf_def findCourse_def exampleDb_def
      exampleCourse_def)

lemma example_policy:
  "coursePolicy examplePlatform exampleCourse =
   \<lparr> deliveryMode = ''in_person'', singleDevicePerDay = True, requireSignature = False,
     requireEnrollment = False, requireIpAllowlist = False, ipAllowlist = [],
     requireGeofence = False, geofence = \<lparr> lat = None, lng = None, radiusMeters = 120 \<rparr> \<rparr>"
  by (simp add: coursePolicy_def normalizeAttendancePolicy_def exampleCourse_def lenientPolicy_def
      normalizeBoolean_def normalizeIpAllowlist_def uniqueInOrder_def toNullableNumber_def
      emptyGeofence_def normalizeDeliveryMode_def str_ev)

lemma example_checks:
  "policyChecks examplePlatform exampleClock exampleRequest exampleSession exampleCourse exampleDb
   = Inr (None, None, None)"
  by (simp add: policyChecks_def example_policy Let_def networkCheck_def geofenceCheck_def
      signatureCheck_def signatureDigest_def exampleRequest_def exampleBody_def trim_def
      findEnrollment_def exampleDb_def identityCheck_def duplicateCheck_def findExisting_def
      findExistingDevice_def)

lemma example_commit_on:
  assumes up: "upsertUser d ''i1'' ''ana@uni.edu'' ''Ana Lopez'' ''A'' ''N/A'' = Inr (exampleUser, d1)"
  shows "commitAttendance examplePlatform exampleClock exampleRequest exampleSession exampleCourse
           None None None d
         = (Success exampleRecord, createAttendance exampleRecord d1)"
proof -
  have e: "normalizeEmail ''ana@uni.edu'' = ''ana@uni.edu''" by (simp add: normalizeEmail_def str_ev)
  have n: "trim ''Ana Lopez'' = ''Ana Lopez''" by (simp add: str_ev)
  have sec: "orElse (normalizeUpper (orElse ''A'' ''A'')) ''N/A'' = ''A''"
    by (simp add: normalizeUpper_def str_ev)
  have ip: "getClientIpFromRequest exampleRequest = ''10.0.0.7''"
    by (simp add: getClientIpFromRequest_def exampleRequest_def normalizeClientIp_def str_ev)
  have dm: "normalizeDeliveryMode ''in_person'' = ''in_person''"
    by (simp add: normalizeDeliveryMode_def str_ev)
  have le: "toLowerCase (trim ''ana@uni.edu'') = ''ana@uni.edu''" by (simp add: str_ev)
  have f: "req_body exampleRequest = exampleBody" "req_userAgent exampleRequest = ''UA''"
    by (simp_all add: exampleRequest_def)
  have b: "b_name exampleBody = ''Ana Lopez''" "b_email exampleBody = ''ana@uni.edu''"
    "b_signatureDataUrl exampleBody = []" "b_location exampleBody = None"
    "b_deviceFingerprint exampleBody = ''dev1''" "b_sessionId exampleBody = exampleSessionId"
    by (simp_all add: exampleBody_def)
  have s: "ses_institutionId exampleSession = Some ''i1''" "ses_section exampleSession = Some ''A''"
    "ses_courseId exampleSession = Some ''c1''" "ses_generatedBy exampleSession = Some ''t1''"
    "ses_generatedByRole exampleSession = Some ''teacher''"
    by (simp_all add: exampleSession_def)
  have c: "crs_section exampleCourse = ''A''" "crs_code exampleCourse = ''MAT''"
    "crs_name exampleCourse = ''Maths''" "crs_deliveryMode exampleCourse = ''in_person''"
    by (simp_all add: exampleCourse_def)
  have k: "clock_today exampleClock = ''2026-01-15''" "clock_time exampleClock = ''10:00:00''"
    by (simp_all add: exampleClock_def)
  have t: "trim [] = []" by (simp add: trim_def)
  have uid: "usr_id exampleUser = 1" by (simp add: exampleUser_def)
  show ?thesis
    unfolding commitAttendance_def Let_def f b s c k e n t
    by (simp add: sec ip dm le up uid strOf_def orNull_def exampleRecord_def)
qed

lemma example_upsert:
  "upsertUser exampleDb ''i1'' ''ana@uni.edu'' ''Ana Lopez'' ''A'' ''N/A''
     = Inr (exampleUser, exampleDb\<lparr> users := [exampleUser] \<rparr>)"
  by (simp add: upsertUser_def exampleDb_def emailTaken_def freshUserId_def Let_def exampleUser_def)


lemma example_commit:
  "commitAttendance examplePlatform exampleClock exampleRequest exampleSession exampleCourse
     None None None exampleDb
   = (Success exampleRecord, committedOnce)"
proof -
  have "createAttendance exampleRecord (exampleDb\<lparr> users := [exampleUser] \<rparr>) = committedOnce"
    by (simp add: createAttendance_def committedOnce_def exampleDb_def)
  with example_commit_on [OF example_upsert] show ?thesis by simp
qed


lemma example_accepted:
  "markAttendance examplePlatform exampleClock exampleRequest exampleServer
   = (Success exampleRecord, exampleServer\<lparr> db := committedOnce \<rparr>)"
proof -
  have r: "req_body exampleRequest = exampleBody" by (simp add: exampleRequest_def)
  have b: "b_sessionId exampleBody = exampleSessionId" by (simp add: exampleBody_def)
  have k: "clock_now exampleClock = 2000" by (simp add: exampleClock_def)
  have sv: "sessions exampleServer = [exampleSessionId \<mapsto> exampleSession]" "db exampleServer = exampleDb"
    by (simp_all add: exampleServer_def)
  show ?thesis
    unfolding markAttendance_def r b k sv example_validate example_fields example_lookup
    by (simp add: example_course example_checks example_commit exampleServer_def)
qed

lemma markAttendance_reach:
  assumes "validateAttendance (req_body req) = None"
      and "fieldChecks (req_body req) = None"
      and "fst (getSessionDetails (clock_now clk) (b_sessionId (req_body req)) (sessions st))
             = Some (b_sessionId (req_body req), s)"
      and "resolveCourse (db st) (Some (b_sessionId (req_body req), s)) = Inr (s, c)"
  shows "markAttendance P clk req st =
           (case policyChecks P clk req s c (db st) of
              Inl r \<Rightarrow> (r, afterLookup clk req st)
            | Inr (dis, h, enr) \<Rightarrow>
                (case commitAttendance P clk req s c dis h enr (db st) of
                   (r, d') \<Rightarrow> (r, (afterLookup clk req st)\<lparr> db := d' \<rparr>)))"
proof -
  obtain sd ss where g: "getSessionDetails (clock_now clk) (b_sessionId (req_body req)) (sessions st) = (sd, ss)"
    by (cases "getSessionDetails (clock_now clk) (b_sessionId (req_body req)) (sessions st)")
  with assms(3) have sd: "sd = Some (b_sessionId (req_body req), s)" by simp
  show ?thesis
    using assms(1,2,4)
    by (cases "policyChecks P clk req s c (db st)")
       (auto simp: markAttendance_def afterLookup_def Let_def g sd split: prod.splits)
qed




lemma validateAttendance_no_success: "validateAttendance b = Some r \<Longrightarrow> \<not> isSuccess r"
  by (auto simp: validateAttendance_def Let_def isSuccess_def split: if_splits)

lemma fieldChecks_no_success: "fieldChecks b = Some r \<Longrightarrow> \<not> isSuccess r"
  by (auto simp: fieldChecks_def isSuccess_def split: if_splits)

lemma resolveCourse_no_success: "resolveCourse d sd = Inl r \<Longrightarrow> \<not> isSuccess r"
  by (auto simp: resolveCourse_def isSuccess_def split: option.splits if_splits)

lemma resolveCourse_Inr:
  "resolveCourse d sd = Inr (s, c) \<Longrightarrow>
     (\<exists>sid. sd = Some (sid, s)) \<and> strOf (ses_courseId s) \<noteq> [] \<and>
     strOf (ses_institutionId s) \<noteq> [] \<and>
     findCourse d (strOf (ses_courseId s)) (strOf (ses_institutionId s)) = Some c"
  by (auto simp: resolveCourse_def split: option.splits if_splits)

lemma networkCheck_no_success: "networkCheck P pol ip = Some r \<Longrightarrow> \<not> isSuccess r"
  by (auto simp: networkCheck_def isSuccess_def split: if_splits)

lemma geofenceCheck_no_success: "geofenceCheck P pol loc = Inl r \<Longrightarrow> \<not> isSuccess r"
  by (auto simp: geofenceCheck_def isSuccess_def Let_def split: if_splits option.splits prod.splits)

lemma signatureCheck_no_success: "signatureCheck P pol sig = Some r \<Longrightarrow> \<not> isSuccess r"
  by (auto simp: signatureCheck_def isSuccess_def split: if_splits option.splits)

lemma identityCheck_no_success: "identityCheck pol enr n = Some r \<Longrightarrow> \<not> isSuccess r"
  by (auto simp: identityCheck_def isSuccess_def split: if_splits option.splits)

lemma duplicateCheck_no_success: "duplicateCheck d pol i t c sid dev = Some r \<Longrightarrow> \<not> isSuccess r"
  by (auto simp: duplicateCheck_def isSuccess_def Let_def split: if_splits)

lemma policyChecks_Inl: "policyChecks P clk req s c d = Inl r \<Longrightarrow> \<not> isSuccess r"
  unfolding policyChecks_def Let_def
  by (auto split: option.splits sum.splits
      dest: networkCheck_no_success geofenceCheck_no_success signatureCheck_no_success
            identityCheck_no_success duplicateCheck_no_success simp: isSuccess_def)


lemma markAttendance_cases:
  "(\<not> isSuccess (fst (markAttendance P clk req st)) \<and>
    db (snd (markAttendance P clk req st)) = db st) \<or>
   (\<exists>s c dis h enr.
       validateAttendance (req_body req) = None \<and>
       fieldChecks (req_body req) = None \<and>
       fst (getSessionDetails (clock_now clk) (b_sessionId (req_body req)) (sessions st))
         = Some (b_sessionId (req_body req), s) \<and>
       resolveCourse (db st) (Some (b_sessionId (req_body req), s)) = Inr (s, c) \<and>
       policyChecks P clk req s c (db st) = Inr (dis, h, enr) \<and>
       commitAttendance P clk req s c dis h enr (db st)
         = (fst (markAttendance P clk req st), db (snd (markAttendance P clk req st))))"
proof (cases "validateAttendance (req_body req)")
  case (Some r)
  then show ?thesis using validateAttendance_no_success [OF Some]
    by (simp add: markAttendance_def)
next
  case v: None
  show ?thesis
  proof (cases "fieldChecks (req_body req)")
    case (Some r)
    then show ?thesis using v fieldChecks_no_success [OF Some]
      by (simp add: markAttendance_def)
  next
    case f: None
    obtain sd ss where g: "getSessionDetails (clock_now clk) (b_sessionId (req_body req)) (sessions st) = (sd, ss)"
      by (cases "getSessionDetails (clock_now clk) (b_sessionId (req_body req)) (sessions st)")
    show ?thesis
    proof (cases "resolveCourse (db st) sd")
      case (Inl r)
      then show ?thesis using v f g resolveCourse_no_success [OF Inl]
        by (simp add: markAttendance_def)
    next
      case (Inr p)
      obtain s c where p: "p = (s, c)" by (cases p)
      from Inr p resolveCourse_Inr obtain sid where sd: "sd = Some (sid, s)" by blast
      with g have "sid = b_sessionId (req_body req)"
        by (auto simp: getSessionDetails_def split: option.splits if_splits)
      with sd have sd': "sd = Some (b_sessionId (req_body req), s)" by simp
      show ?thesis
      proof (cases "policyChecks P clk req s c (db st)")
        case (Inl r)
        then show ?thesis using v f g Inr p policyChecks_Inl [OF Inl]
          by (simp add: markAttendance_def)
      next
        case pc: (Inr q)
        obtain dis h enr where q: "q = (dis, h, enr)" by (cases q)
        obtain r d' where cm: "commitAttendance P clk req s c dis h enr (db st) = (r, d')"
          by (cases "commitAttendance P clk req s c dis h enr (db st)")
        have "markAttendance P clk req st = (r, st\<lparr> sessions := ss, db := d' \<rparr>)"
          using v f g Inr p pc q cm by (simp add: markAttendance_def)
        then show ?thesis using v f g sd' Inr p pc q cm by auto
      qed
    qed
  qed
qed






lemma verifyAttendance_redirect_iff:
  "(\<exists>sid inst. fst (verifyAttendance P now (Some d) store) = VRedirect sid inst) =
   (tok_sessionId d \<noteq> [] \<and> tok_timestamp d \<noteq> 0 \<and> tok_hash d \<noteq> [] \<and>
    tok_hash d = tokenHash P (tok_sessionId d) (tok_timestamp d) \<and>
    now - tok_timestamp d \<le> qrExpiryTime)"
  by (auto simp: verifyAttendance_def split: prod.splits)

lemma markAttendance_needs_session:
  assumes "isSuccess (fst (markAttendance P clk req st))"
  shows "\<exists>s. sessions st (b_sessionId (req_body req)) = Some s \<and> clock_now clk \<le> ses_expiresAt s"
proof -
  from markAttendance_cases [of P clk req st] assms
  obtain s where "fst (getSessionDetails (clock_now clk) (b_sessionId (req_body req)) (sessions st))
         = Some (b_sessionId (req_body req), s)"
    by auto
  then show ?thesis
    by (auto simp: getSessionDetails_def split: option.splits if_splits)
qed

lemma markAttendance_no_session:
  assumes "validateAttendance (req_body req) = None" and "fieldChecks (req_body req) = None"
    and "fst (getSessionDetails (clock_now clk) (b_sessionId (req_body req)) (sessions st)) = None"
  shows "markAttendance P clk req st =
           (Reply 400 ''Invalid or expired session. Please scan a fresh QR.'', afterLookup clk req st)"
proof -
  obtain sd ss where g: "getSessionDetails (clock_now clk) (b_sessionId (req_body req)) (sessions st) = (sd, ss)"
    by (cases "getSessionDetails (clock_now clk) (b_sessionId (req_body req)) (sessions st)")
  with assms(3) have "sd = None" by simp
  with g assms(1,2) show ?thesis
    by (simp add: markAttendance_def afterLookup_def resolveCourse_def)
qed

text \<open>
  Claim C3, as the two routes divide the work. Marking attendance succeeds only if the
  session id is stored and not expired, and a submission whose lookup misses is rejected as an
  invalid or expired session. The integrity tag and the 15-minute window of the token are
  checked by the verification route alone, which redirects to the form exactly when the token
  has its three members, its tag is the tag recomputed over session id and issue time, and not
  more than 15 minutes have passed since the issue time.
\<close>

theorem redemption_checks_store_only:
  "(isSuccess (fst (markAttendance P clk req st)) \<longrightarrow>
      (\<exists>s. sessions st (b_sessionId (req_body req)) = Some s \<and> clock_now clk \<le> ses_expiresAt s)) \<and>
   (validateAttendance (req_body req) = None \<and> fieldChecks (req_body req) = None \<and>
    fst (getSessionDetails (clock_now clk) (b_sessionId (req_body req)) (sessions st)) = None \<longrightarrow>
      markAttendance P clk req st =
        (Reply 400 ''Invalid or expired session. Please scan a fresh QR.'', afterLookup clk req st)) \<and>
   ((\<exists>sid inst. fst (verifyAttendance P now (Some d) store) = VRedirect sid inst) =
    (tok_sessionId d \<noteq> [] \<and> tok_timestamp d \<noteq> 0 \<and> tok_hash d \<noteq> [] \<and>
     tok_hash d = tokenHash P (tok_sessionId d) (tok_timestamp d) \<and>
     now - tok_timestamp d \<le> 15 * 60 * 1000))"
  using markAttendance_needs_session [of P clk req st]
        markAttendance_no_session [of req clk st P]
        verifyAttendance_redirect_iff [of P now d store]
  by (simp add: qrExpiryTime_def)

lemma example_req: "req_body exampleRequest = exampleBody" "req_forwardedFor exampleRequest = []"
  "req_ip exampleRequest = ''10.0.0.7''" "req_userAgent exampleRequest = ''UA''"
  by (simp_all add: exampleRequest_def)

lemma example_srv: "sessions exampleServer = [exampleSessionId \<mapsto> exampleSession]"
  "db exampleServer = exampleDb"
  by (simp_all add: exampleServer_def)

lemma example_body_sid: "b_sessionId exampleBody = exampleSessionId"
  by (simp add: exampleBody_def)

lemma example_clock: "clock_now exampleClock = 2000" "clock_today exampleClock = ''2026-01-15''"
  by (simp_all add: exampleClock_def)

lemma example_lookup_fst:
  "fst (getSessionDetails 2000 exampleSessionId [exampleSessionId \<mapsto> exampleSession])
   = Some (exampleSessionId, exampleSession)"
  by (simp add: example_lookup)

lemma example_ip: "getClientIpFromRequest exampleRequest = ''10.0.0.7''"
  by (simp add: getClientIpFromRequest_def exampleRequest_def normalizeClientIp_def str_ev)

lemma late_lookup:
  "fst (getSessionDetails 91001 exampleSessionId [exampleSessionId \<mapsto> exampleSession]) = None"
  by (simp add: getSessionDetails_def exampleSession_def)





lemma decimalInt_1000: "decimalInt 1000 = ''1000''"
  by (simp add: decimalInt_def decimal.simps digitChar_def)

lemma genuine_redirect:
  "fst (verifyAttendance examplePlatform 2000 (Some genuineToken) [exampleSessionId \<mapsto> exampleSession])
   = VRedirect exampleSessionId (Some ''i1'')"
  by (simp add: verifyAttendance_def genuineToken_def getSessionDetails_def exampleSession_def
      qrExpiryTime_def)
     (simp add: exampleSessionId_def tokenHash_def examplePlatform_def)

text \<open>
  The theorem at the example submission in time and late, and at the genuine token.
\<close>

theorem redemption_checks_store_only_witness:
  "(\<exists>s. sessions exampleServer (b_sessionId (req_body exampleRequest)) = Some s \<and>
        clock_now exampleClock \<le> ses_expiresAt s) \<and>
   markAttendance examplePlatform lateClock exampleRequest exampleServer =
     (Reply 400 ''Invalid or expired session. Please scan a fresh QR.'',
      afterLookup lateClock exampleRequest exampleServer) \<and>
   tok_hash genuineToken = tokenHash examplePlatform (tok_sessionId genuineToken) (tok_timestamp genuineToken) \<and>
   2000 - tok_timestamp genuineToken \<le> (15 * 60 * 1000 :: int)"
proof -
  have a: "isSuccess (fst (markAttendance examplePlatform exampleClock exampleRequest exampleServer))"
    by (simp add: example_accepted isSuccess_def)
  have l: "validateAttendance (req_body exampleRequest) = None \<and>
           fieldChecks (req_body exampleRequest) = None \<and>
           fst (getSessionDetails (clock_now lateClock) (b_sessionId (req_body exampleRequest))
                  (sessions exampleServer)) = None"
    by (simp add: example_req example_srv example_validate example_fields example_body_sid
        lateClock_def late_lookup)
  have g: "\<exists>sid inst. fst (verifyAttendance examplePlatform 2000 (Some genuineToken)
                  [exampleSessionId \<mapsto> exampleSession]) = VRedirect sid inst"
    by (simp add: genuine_redirect)
  show ?thesis
    using redemption_checks_store_only [of examplePlatform exampleClock exampleRequest exampleServer
            2000 genuineToken "[exampleSessionId \<mapsto> exampleSession]"]
          redemption_checks_store_only [of examplePlatform lateClock exampleRequest exampleServer
            2000 genuineToken "[exampleSessionId \<mapsto> exampleSession]"]
          a l g
    by blast
qed

text \<open>
  Claim C3 as stated lets a failed tag invalidate the redemption. The forged token for the
  example session is refused by the verification route, and the submission with that session
  id is accepted all the same: the handler never sees a token.
\<close>

theorem forged_token_redeemed:
  "fst (verifyAttendance examplePlatform 2000 (Some forgedToken) (sessions exampleServer))
     = VStatus 400 ''Invalid QR code: Hash mismatch'' \<and>
   b_sessionId (req_body exampleRequest) = tok_sessionId forgedToken \<and>
   fst (markAttendance examplePlatform exampleClock exampleRequest exampleServer)
     = Success exampleRecord"
  by (simp add: example_accepted example_req example_body_sid)
     (simp add: verifyAttendance_def forgedToken_def exampleSessionId_def tokenHash_def
        examplePlatform_def)






section \<open>Properties of policy resolution\<close>





lemma geofence_choice:
  "(case raw_geofence raw of Some g \<Rightarrow> g | None \<Rightarrow> (case None of Some g \<Rightarrow> g | None \<Rightarrow> emptyGeofence))
   = rawGeofenceOf raw"
  by (simp add: rawGeofenceOf_def split: option.splits)
























section \<open>Properties of signature validation\<close>

lemma validateSignatureDataUrl_None_iff:
  "(validateSignatureDataUrl P sg = None) =
   (startsWith sg ''data:image/png;base64,'' \<and> length sg \<le> 700000 \<and>
    (\<exists>p. signaturePayload sg = Some p \<and> p \<noteq> [] \<and> list_all isBase64Char p \<and>
         120 \<le> base64ByteLength P p \<and> base64ByteLength P p \<le> 500000))"
  by (auto simp: validateSignatureDataUrl_def startsWith_def Let_def split: option.splits)

text \<open>
  What the optional branch does do: when the course does not require a signature and one is
  sent, a verdict of the validator is the reply, with status 400.
\<close>

lemma optional_signature_validated:
  assumes reach: "reachesSignatureCheck P clk req st s c"
      and opt: "\<not> requireSignature (coursePolicy P c)"
      and sent: "trim (b_signatureDataUrl (req_body req)) \<noteq> []"
      and bad: "validateSignatureDataUrl P (trim (b_signatureDataUrl (req_body req))) = Some err"
  shows "markAttendance P clk req st = (Reply 400 err, afterLookup clk req st)"
proof -
  from reach have v: "validateAttendance (req_body req) = None"
    and f: "fieldChecks (req_body req) = None"
    and l: "fst (getSessionDetails (clock_now clk) (b_sessionId (req_body req)) (sessions st))
             = Some (b_sessionId (req_body req), s)"
    and r: "resolveCourse (db st) (Some (b_sessionId (req_body req), s)) = Inr (s, c)"
    and n: "networkCheck P (coursePolicy P c) (getClientIpFromRequest req) = None"
    and g: "\<not> isl (geofenceCheck P (coursePolicy P c) (b_location (req_body req)))"
    by (simp_all add: reachesSignatureCheck_def)
  from g obtain dis where g': "geofenceCheck P (coursePolicy P c) (b_location (req_body req)) = Inr dis"
    by (cases "geofenceCheck P (coursePolicy P c) (b_location (req_body req))") simp_all
  have sc: "signatureCheck P (coursePolicy P c) (trim (b_signatureDataUrl (req_body req)))
            = Some (Reply 400 err)"
    using opt sent bad by (simp add: signatureCheck_def)
  have "policyChecks P clk req s c (db st) = Inl (Reply 400 err)"
    by (simp add: policyChecks_def Let_def n g' sc)
  then show ?thesis by (simp add: markAttendance_reach [OF v f l r])
qed

lemma comma_not_A: "CHR '','' \<notin> set (replicate n CHR ''A'')"
  by simp

lemma junk_payload: "signaturePayload junkSignature = Some (replicate 160 CHR ''A'')"
proof -
  have j: "junkSignature =
      ''data:image/png;base64'' @ CHR '','' # (replicate 160 CHR ''A'' @ CHR '','' # ''<script>'')"
    by (simp add: junkSignature_def)
  have 1: "splitOn CHR '','' ''<script>'' = [''<script>'']" by simp
  have 2: "splitOn CHR '','' (replicate 160 CHR ''A'' @ CHR '','' # ''<script>'')
           = replicate 160 CHR ''A'' # splitOn CHR '','' ''<script>''"
    by (rule splitOn_sep [OF comma_not_A])
  have 3: "splitOn CHR '','' (''data:image/png;base64'' @ CHR '','' #
               (replicate 160 CHR ''A'' @ CHR '','' # ''<script>''))
           = ''data:image/png;base64'' #
               splitOn CHR '','' (replicate 160 CHR ''A'' @ CHR '','' # ''<script>'')"
    by (rule splitOn_sep) simp
  have "splitOn CHR '','' junkSignature
        = [''data:image/png;base64'', replicate 160 CHR ''A'', ''<script>'']"
    unfolding j 3 2 1 ..
  then show ?thesis by (simp add: signaturePayload_def)
qed

lemma junk_valid: "validateSignatureDataUrl examplePlatform junkSignature = None"
proof -
  have s: "startsWith junkSignature ''data:image/png;base64,''"
    by (simp add: startsWith_def junkSignature_def)
  have l: "length junkSignature = 191" by (simp add: junkSignature_def)
  have b: "list_all isBase64Char (replicate 160 CHR ''A'')"
    by (simp add: list_all_iff isBase64Char_def)
  have n: "base64ByteLength examplePlatform (replicate 160 CHR ''A'') = 120"
    by (simp add: examplePlatform_def)
  have ne: "replicate 160 CHR ''A'' \<noteq> []" by simp
  show ?thesis
    unfolding validateSignatureDataUrl_None_iff using s l b n ne junk_payload by simp
qed


lemma junk_nonempty: "junkSignature \<noteq> []"
  by (simp add: junkSignature_def)

lemma junk_trim: "trim junkSignature = junkSignature"
proof (rule trim_id)
  show "junkSignature \<noteq> []" by (rule junk_nonempty)
  show "\<not> isSpace (hd junkSignature)" by (simp add: junkSignature_def isSpace_def)
  have "last junkSignature = CHR ''>''" by (simp add: junkSignature_def)
  then show "\<not> isSpace (last junkSignature)" by (simp add: isSpace_def)
qed

lemma signed_body:
  "req_body signedRequest = exampleBody\<lparr> b_signatureDataUrl := junkSignature \<rparr>"
  "getClientIpFromRequest signedRequest = ''10.0.0.7''"
  "req_userAgent signedRequest = ''UA''"
  by (simp_all add: signedRequest_def exampleRequest_def getClientIpFromRequest_def
      normalizeClientIp_def str_ev)

lemma signed_fields:
  "validateAttendance (exampleBody\<lparr> b_signatureDataUrl := sg \<rparr>) = None"
  "fieldChecks (exampleBody\<lparr> b_signatureDataUrl := sg \<rparr>) = None"
  "b_sessionId (exampleBody\<lparr> b_signatureDataUrl := sg \<rparr>) = exampleSessionId"
  "b_location (exampleBody\<lparr> b_signatureDataUrl := sg \<rparr>) = None"
  "b_signatureDataUrl (exampleBody\<lparr> b_signatureDataUrl := sg \<rparr>) = sg"
  "b_name (exampleBody\<lparr> b_signatureDataUrl := sg \<rparr>) = ''Ana Lopez''"
  "b_email (exampleBody\<lparr> b_signatureDataUrl := sg \<rparr>) = ''ana@uni.edu''"
  "b_deviceFingerprint (exampleBody\<lparr> b_signatureDataUrl := sg \<rparr>) = ''dev1''"
  by (simp_all add: validateAttendance_def fieldChecks_def exampleBody_def exampleSessionId_def
      isValidEmail_def normalizeEmail_def str_ev)

lemma signed_checks:
  "policyChecks examplePlatform exampleClock signedRequest exampleSession exampleCourse exampleDb
   = Inr (None, Some (CHR ''#'' # replicate 160 CHR ''A''), None)"
proof -
  have sc: "signatureCheck examplePlatform (coursePolicy examplePlatform exampleCourse) junkSignature = None"
    by (simp add: signatureCheck_def example_policy junk_valid)
  have sd: "signatureDigest examplePlatform junkSignature = Inr (Some (CHR ''#'' # replicate 160 CHR ''A''))"
    by (simp add: signatureDigest_def junk_nonempty junk_payload examplePlatform_def)
  have n: "networkCheck examplePlatform (coursePolicy examplePlatform exampleCourse) ''10.0.0.7'' = None"
    by (simp add: networkCheck_def example_policy)
  have g: "geofenceCheck examplePlatform (coursePolicy examplePlatform exampleCourse) None = Inr None"
    by (simp add: geofenceCheck_def example_policy)
  have i: "identityCheck (coursePolicy examplePlatform exampleCourse) None x = None" for x
    by (simp add: identityCheck_def example_policy)
  have e: "findEnrollment exampleDb i c m x = None" for i c m x
    by (simp add: findEnrollment_def exampleDb_def)
  have d: "duplicateCheck exampleDb pol i t c m x = None" for pol i t c m x
    by (simp add: duplicateCheck_def findExisting_def findExistingDevice_def exampleDb_def)
  show ?thesis
    unfolding policyChecks_def Let_def signed_body signed_fields junk_trim
    by (simp add: n g sc sd e i d)
qed

lemma signed_commit:
  "commitAttendance examplePlatform exampleClock signedRequest exampleSession exampleCourse
     None (Some (CHR ''#'' # replicate 160 CHR ''A'')) None exampleDb
   = (Success signedRecord, createAttendance signedRecord (exampleDb\<lparr> users := [exampleUser] \<rparr>))"
proof -
  have e: "normalizeEmail ''ana@uni.edu'' = ''ana@uni.edu''" by (simp add: normalizeEmail_def str_ev)
  have n: "trim ''Ana Lopez'' = ''Ana Lopez''" by (simp add: str_ev)
  have sec: "orElse (normalizeUpper (orElse ''A'' ''A'')) ''N/A'' = ''A''"
    by (simp add: normalizeUpper_def str_ev)
  have dm: "normalizeDeliveryMode ''in_person'' = ''in_person''"
    by (simp add: normalizeDeliveryMode_def str_ev)
  have le: "toLowerCase (trim ''ana@uni.edu'') = ''ana@uni.edu''" by (simp add: str_ev)
  have s: "ses_institutionId exampleSession = Some ''i1''" "ses_section exampleSession = Some ''A''"
    "ses_courseId exampleSession = Some ''c1''" "ses_generatedBy exampleSession = Some ''t1''"
    "ses_generatedByRole exampleSession = Some ''teacher''"
    by (simp_all add: exampleSession_def)
  have c: "crs_section exampleCourse = ''A''" "crs_code exampleCourse = ''MAT''"
    "crs_name exampleCourse = ''Maths''" "crs_deliveryMode exampleCourse = ''in_person''"
    by (simp_all add: exampleCourse_def)
  have k: "clock_today exampleClock = ''2026-01-15''" "clock_time exampleClock = ''10:00:00''"
    by (simp_all add: exampleClock_def)
  have uid: "usr_id exampleUser = 1" by (simp add: exampleUser_def)
  have o: "orNull junkSignature = Some junkSignature" by (simp add: orNull_def junk_nonempty)
  show ?thesis
    unfolding commitAttendance_def Let_def signed_body signed_fields s c k e n junk_trim o
    by (simp add: sec dm le example_upsert uid strOf_def orNull_def exampleRecord_def
        signedRecord_def)
qed

lemma signed_accepted:
  "fst (markAttendance examplePlatform exampleClock signedRequest exampleServer) = Success signedRecord"
proof -
  have "markAttendance examplePlatform exampleClock signedRequest exampleServer
        = (case policyChecks examplePlatform exampleClock signedRequest exampleSession exampleCourse
                  (db exampleServer) of
              Inl r \<Rightarrow> (r, afterLookup exampleClock signedRequest exampleServer)
            | Inr (dis, h, enr) \<Rightarrow>
                (case commitAttendance examplePlatform exampleClock signedRequest exampleSession
                        exampleCourse dis h enr (db exampleServer) of
                   (r, d') \<Rightarrow> (r, (afterLookup exampleClock signedRequest exampleServer)\<lparr> db := d' \<rparr>)))"
    by (rule markAttendance_reach)
       (simp_all add: signed_body signed_fields example_clock example_srv example_lookup_fst
          example_course)
  then show ?thesis by (simp add: example_srv signed_checks signed_commit)
qed

text \<open>
  Claim C10 says that an optional signature is rejected unless everything after the comma
  of the data URL is in the base64 alphabet. The code at a signature with a second comma: the
  course does not require a signature; the submitted data URL has 160 base64 characters after
  the first comma and then \<^verbatim>\<open>,<script>\<close>; the validator looks at the piece
  between the first two commas only and finds nothing wrong, the submission is accepted, and
  the whole string is stored with the record.
\<close>

theorem second_comma_signature_accepted:
  "\<not> requireSignature (coursePolicy examplePlatform exampleCourse) \<and>
   b_signatureDataUrl (req_body signedRequest)
     = ''data:image/png;base64,'' @ replicate 160 CHR ''A'' @ '',<script>'' \<and>
   \<not> list_all isBase64Char (drop 22 (b_signatureDataUrl (req_body signedRequest))) \<and>
   validateSignatureDataUrl examplePlatform (b_signatureDataUrl (req_body signedRequest)) = None \<and>
   fst (markAttendance examplePlatform exampleClock signedRequest exampleServer) = Success signedRecord \<and>
   att_signatureDataUrl signedRecord = Some junkSignature"
proof -
  have d: "drop 22 junkSignature = replicate 160 CHR ''A'' @ '',<script>''"
    by (simp add: junkSignature_def)
  have "\<not> list_all isBase64Char (drop 22 junkSignature)"
    unfolding d by (simp add: isBase64Char_def)
  then show ?thesis
    by (simp add: signed_body signed_fields example_policy junk_valid signed_accepted
        signedRecord_def)
       (simp add: junkSignature_def)
qed

end
